theory Spec2Isabelle
  imports Complex_Main "HOL-Library.Word" "HOL-Library.Monad_Syntax" "HOL-Library.Multiset"
begin

section \<open>The parallel scheduler (parallel.hpp)\<close>

text \<open>
  \<open>parallel\<close> is a template over \<open>Integer_Type\<close>; the repository instantiates it with
  \<open>unsigned long long\<close> only, a 64-bit word. \<open>threshold\<close> is \<open>unsigned long\<close> (64 bits on
  the LP64 platforms the library is built for) and \<open>total_cores\<close>, the value of
  \<open>std::thread::hardware_concurrency()\<close>, is \<open>unsigned int\<close>, a 32-bit word that the model
  takes as a parameter.

  \<open>func\<close> returns nothing, so what a call of \<open>parallel\<close> does is the indices it hands to
  \<open>func\<close>, and on which thread: a \<open>dispatch\<close> holds, for every worker thread in launch
  order, the indices that thread passes to \<open>func\<close>, and the indices the calling thread
  passes to \<open>func\<close> itself. (The branch under \<open>parallel_mode == 0\<close> is compiled out:
  \<open>parallel_mode\<close> is the constant 1.)
\<close>

type_synonym Integer_Type = "64 word"

record dispatch =
  threads :: "Integer_Type list list"
  caller :: "Integer_Type list"

text \<open>The loop \<open>for (auto a = dim_first; a != dim_last; ++a) func(a)\<close>, also the body
  \<open>while (a != b) func(a++)\<close> of \<open>job_slice\<close>. It stops after at most \<open>2 ^ 64\<close> steps.\<close>

function range_loop :: "Integer_Type \<Rightarrow> Integer_Type \<Rightarrow> Integer_Type list" where
  "range_loop a b = (if a = b then [] else a # range_loop (a + 1) b)"
  by pat_completeness auto
termination
proof (relation "measure (\<lambda>(a, b). unat (b - a))")
  show "wf (measure (\<lambda>(a, b). unat (b - a)))" by simp
next
  fix a b :: Integer_Type
  assume "a \<noteq> b"
  then have "b - a \<noteq> 0" by simp
  then have "unat (b - a - 1) < unat (b - a)"
    by (simp add: unat_minus_one unat_gt_0)
  moreover have "b - (a + 1) = b - a - 1" by simp
  ultimately have "unat (b - (a + 1)) < unat (b - a)" by (simp only:)
  then show "((a + 1, b), (a, b)) \<in> measure (\<lambda>(a, b). unat (b - a))"
    by (simp only: in_measure prod.case)
qed

declare range_loop.simps [simp del]

definition job_slice :: "Integer_Type \<Rightarrow> Integer_Type \<Rightarrow> Integer_Type list" where
  "job_slice a b = (if a \<ge> b then [] else range_loop a b)"

text \<open>The loop \<open>for (auto index = 0UL; index != total_cores-1; ++index)\<close> that launches the
  worker threads; \<open>total_cores-1\<close> is computed in 32 bits and widened for the comparison.\<close>

function worker_loop ::
  "Integer_Type \<Rightarrow> Integer_Type \<Rightarrow> 32 word \<Rightarrow> 64 word \<Rightarrow> 64 word \<Rightarrow> Integer_Type list list" where
  "worker_loop dim_first dim_last total_cores tasks_per_thread index =
     (if index = ucast (total_cores - 1) then []
      else
        let first = tasks_per_thread * index + dim_first;
            first = min first dim_last;
            last = first + tasks_per_thread;
            last = min last dim_last
        in job_slice first last
           # worker_loop dim_first dim_last total_cores tasks_per_thread (index + 1))"
  by pat_completeness auto
termination
proof (relation "measure (\<lambda>(f, l, p, t, i). unat (ucast (p - 1) - i))")
  show "wf (measure (\<lambda>(f :: Integer_Type, l :: Integer_Type, p :: 32 word, t :: 64 word,
      i :: 64 word). unat (ucast (p - 1) - i)))"
    by simp
next
  fix dim_first dim_last :: Integer_Type and total_cores :: "32 word"
    and tasks_per_thread index :: "64 word"
  assume "index \<noteq> ucast (total_cores - 1)"
  then have "ucast (total_cores - 1) - index \<noteq> 0" by simp
  then have "unat (ucast (total_cores - 1) - index - 1) < unat (ucast (total_cores - 1) - index)"
    by (simp add: unat_minus_one unat_gt_0)
  moreover have "ucast (total_cores - 1) - (index + 1) = ucast (total_cores - 1) - index - 1"
    by simp
  ultimately have "unat (ucast (total_cores - 1) - (index + 1))
      < unat (ucast (total_cores - 1) - index)" by (simp only:)
  then show "((dim_first, dim_last, total_cores, tasks_per_thread, index + 1),
      (dim_first, dim_last, total_cores, tasks_per_thread, index))
      \<in> measure (\<lambda>(f, l, p, t, i). unat (ucast (p - 1) - i))"
    by (simp only: in_measure prod.case)
qed

declare worker_loop.simps [simp del]

definition parallel :: "32 word \<Rightarrow> Integer_Type \<Rightarrow> Integer_Type \<Rightarrow> 64 word \<Rightarrow> dispatch" where
  "parallel total_cores dim_first dim_last threshold =
     (if total_cores \<le> 1 \<or> dim_last - dim_first \<le> threshold then
        \<lparr>threads = [], caller = range_loop dim_first dim_last\<rparr>
      else if dim_last - dim_first \<le> ucast total_cores then
        \<lparr>threads = map (\<lambda>index. [index]) (range_loop dim_first dim_last), caller = []\<rparr>
      else
        let tasks_per_thread = (dim_last - dim_first + ucast total_cores - 1) div ucast total_cores
        in \<lparr>threads = worker_loop dim_first dim_last total_cores tasks_per_thread 0,
            caller = job_slice (tasks_per_thread * ucast (total_cores - 1)) dim_last\<rparr>)"

text \<open>The overload \<open>parallel(func, dim_last)\<close>: the range starts at 0 and \<open>threshold\<close> takes
  its default 1.\<close>

definition parallel0 :: "32 word \<Rightarrow> Integer_Type \<Rightarrow> dispatch" where
  "parallel0 total_cores dim_last = parallel total_cores 0 dim_last 1"

text \<open>Every index handed to \<open>func\<close> by a call, worker threads first.\<close>

definition invoked :: "dispatch \<Rightarrow> Integer_Type list" where
  "invoked d = concat (threads d) @ caller d"

text \<open>The block partition as section 4.1 of the specification words it, on natural numbers:
  blocks of \<open>ceil(n / P)\<close> indices each, the first \<open>P - 1\<close> of them on workers and the final
  one, up to \<open>last\<close>, on the calling thread.\<close>

definition spec_block_partition :: "nat \<Rightarrow> nat \<Rightarrow> nat \<Rightarrow> nat list list \<times> nat list" where
  "spec_block_partition P dim_first dim_last =
     (let n = dim_last - dim_first; c = (n + P - 1) div P
      in (map (\<lambda>k. [dim_first + k * c ..< dim_first + (k + 1) * c]) [0 ..< P - 1],
          [dim_first + (P - 1) * c ..< dim_last]))"


section \<open>Values and cubes (the Armadillo operations the pipeline uses)\<close>

subsection \<open>Doubles\<close>

text \<open>
  A \<open>double\<close> is a finite value, an infinity or NaN. An arithmetic operation on finite
  values yields the exact result rounded to the nearest binary64 value, ties to even (the
  default rounding mode, which the driver never changes): 53 significant bits, exponents
  from \<open>-1022\<close> on (below \<open>2 ^ -1022\<close> the values are the multiples of \<open>2 ^ -1074\<close>), and an
  infinity when the rounded magnitude reaches \<open>2 ^ 1024\<close>. Division by zero does not trap:
  it yields an infinity or NaN. The two zeros of IEEE 754 are one value here, \<open>Fin 0\<close>; the
  sign of a zero decides a result only where a number other than zero is divided by it,
  and such a divisor is read as \<open>+0\<close>.
\<close>

datatype double = Fin real | PInf | NInf | NaN

fun dless :: "double \<Rightarrow> double \<Rightarrow> bool" where
  "dless (Fin x) (Fin y) = (x < y)"
| "dless (Fin x) PInf = True"
| "dless NInf (Fin y) = True"
| "dless NInf PInf = True"
| "dless _ _ = False"

fun dle :: "double \<Rightarrow> double \<Rightarrow> bool" where
  "dle (Fin x) (Fin y) = (x \<le> y)"
| "dle (Fin x) PInf = True"
| "dle NInf (Fin y) = True"
| "dle NInf PInf = True"
| "dle NInf NInf = True"
| "dle PInf PInf = True"
| "dle _ _ = False"

text \<open>The number of binary digits of a positive integer.\<close>

function bit_length :: "int \<Rightarrow> int" where
  "bit_length k = (if k \<le> 0 then 0 else bit_length (k div 2) + 1)"
  by pat_completeness auto
termination
  by (relation "measure nat") simp_all

declare bit_length.simps [simp del]

definition pow2 :: "int \<Rightarrow> real" where
  "pow2 e = (if 0 \<le> e then 2 ^ nat e else 1 / 2 ^ nat (- e))"

text \<open>The binary exponent of a number other than zero: the \<open>e\<close> with
  \<open>2 ^ e \<le> \<bar>x\<bar> < 2 ^ (e + 1)\<close>.\<close>

definition exponent_of :: "real \<Rightarrow> int" where
  "exponent_of x =
     (if 1 \<le> \<bar>x\<bar> then bit_length \<lfloor>\<bar>x\<bar>\<rfloor> - 1
      else - bit_length (\<lceil>1 / \<bar>x\<bar>\<rceil> - 1))"

text \<open>Rounding to the nearest integer, a tie to the even one.\<close>

definition round_even :: "real \<Rightarrow> int" where
  "round_even x =
     (let n = \<lfloor>x\<rfloor>; r = x - of_int n
      in if r < 1 / 2 then n else if 1 / 2 < r then n + 1 else if even n then n else n + 1)"

text \<open>Rounding an exact result to binary64: the result is a multiple of \<open>2 ^ q\<close>, where
  \<open>q\<close> is 52 below the exponent of \<open>x\<close>, and not below \<open>-1074\<close>.\<close>

definition round_double :: "real \<Rightarrow> double" where
  "round_double x =
     (if x = 0 then Fin 0
      else
        let q = max (exponent_of x) (- 1022) - 52;
            y = of_int (round_even (x / pow2 q)) * pow2 q
        in if 2 ^ 1024 \<le> y then PInf else if y \<le> - (2 ^ 1024) then NInf else Fin y)"

fun ddiv :: "double \<Rightarrow> double \<Rightarrow> double" where
  "ddiv (Fin x) (Fin y) =
     (if y \<noteq> 0 then round_double (x / y)
      else if x = 0 then NaN else if 0 < x then PInf else NInf)"
| "ddiv (Fin x) PInf = Fin 0"
| "ddiv (Fin x) NInf = Fin 0"
| "ddiv PInf (Fin y) = (if 0 \<le> y then PInf else NInf)"
| "ddiv NInf (Fin y) = (if 0 \<le> y then NInf else PInf)"
| "ddiv _ _ = NaN"

fun dmul :: "double \<Rightarrow> double \<Rightarrow> double" where
  "dmul (Fin x) (Fin y) = round_double (x * y)"
| "dmul (Fin x) PInf = (if x = 0 then NaN else if 0 < x then PInf else NInf)"
| "dmul (Fin x) NInf = (if x = 0 then NaN else if 0 < x then NInf else PInf)"
| "dmul PInf (Fin y) = (if y = 0 then NaN else if 0 < y then PInf else NInf)"
| "dmul NInf (Fin y) = (if y = 0 then NaN else if 0 < y then NInf else PInf)"
| "dmul PInf PInf = PInf"
| "dmul PInf NInf = NInf"
| "dmul NInf PInf = NInf"
| "dmul NInf NInf = PInf"
| "dmul _ _ = NaN"

fun dadd :: "double \<Rightarrow> double \<Rightarrow> double" where
  "dadd (Fin x) (Fin y) = round_double (x + y)"
| "dadd (Fin x) PInf = PInf"
| "dadd (Fin x) NInf = NInf"
| "dadd PInf (Fin y) = PInf"
| "dadd NInf (Fin y) = NInf"
| "dadd PInf PInf = PInf"
| "dadd NInf NInf = NInf"
| "dadd _ _ = NaN"

text \<open>
  The conversion of a \<open>double\<close> to \<open>unsigned short\<close> by
  \<open>arma::conv_to<arma::Mat<unsigned short>>::from\<close>: Armadillo converts a negative value to
  0 and lets C++ convert the others, which drops the fraction. C++ defines no result for a
  value whose integer part does not fit into 16 bits, for an infinity or for NaN; the
  model has \<open>None\<close> there. The conversion back is exact.
\<close>

fun to_unsigned_short :: "double \<Rightarrow> 16 word option" where
  "to_unsigned_short (Fin x) =
     (if x < 0 then Some 0 else if x < 65536 then Some (word_of_int \<lfloor>x\<rfloor>) else None)"
| "to_unsigned_short NInf = Some 0"
| "to_unsigned_short PInf = None"
| "to_unsigned_short NaN = None"

definition of_unsigned_short :: "16 word \<Rightarrow> double" where
  "of_unsigned_short w = Fin (of_nat (unat w))"


subsection \<open>Cubes and matrices\<close>

text \<open>
  An \<open>arma::cube\<close> is its extents and its slices, each slice the column-major memory of
  one frame; an \<open>arma::Mat<eT>\<close> is its extents and its column-major memory. A result
  \<open>None\<close> stands for a call that does not return normally: one of Armadillo's checks
  (enabled by default) throws, and the exception leaves \<open>PGURESVT\<close> through its C interface
  or, inside a worker thread, ends the process; or the behaviour of the program is
  undefined from there on.
\<close>

record cube =
  n_rows :: nat
  n_cols :: nat
  mem :: "double list list"

record 'eT Mat =
  m_rows :: nat
  m_cols :: nat
  m_mem :: "'eT list"

type_synonym mat = "double Mat"

definition n_slices :: "cube \<Rightarrow> nat" where
  "n_slices c = length (mem c)"

definition n_elem :: "cube \<Rightarrow> nat" where
  "n_elem c = n_rows c * n_cols c * n_slices c"

text \<open>Every slice holds \<open>n_rows * n_cols\<close> values.\<close>

definition wf_cube :: "cube \<Rightarrow> bool" where
  "wf_cube c = list_all (\<lambda>f. length f = n_rows c * n_cols c) (mem c)"

text \<open>\<open>arma::cube u(Nx, Ny, T)\<close>: the \<open>int\<close> \<open>T\<close> is converted to an unsigned extent, so a
  negative \<open>T\<close> asks for about \<open>2 ^ 64\<close> slices and the constructor throws.\<close>

definition cube_new :: "nat \<Rightarrow> nat \<Rightarrow> int \<Rightarrow> unit option" where
  "cube_new rows cols slcs = (if slcs < 0 then None else Some ())"

definition zeros :: "nat \<Rightarrow> nat \<Rightarrow> nat \<Rightarrow> cube" where
  "zeros rows cols slcs =
     \<lparr>n_rows = rows, n_cols = cols, mem = replicate slcs (replicate (rows * cols) (Fin 0))\<rparr>"

text \<open>\<open>arma::cube noisysequence(X, Nx, Ny, num_images)\<close> copies \<open>Nx * Ny * num_images\<close>
  values out of the caller's buffer; a shorter buffer is read past its end.\<close>

definition cube_aux :: "double list \<Rightarrow> nat \<Rightarrow> nat \<Rightarrow> nat \<Rightarrow> cube option" where
  "cube_aux X rows cols slcs =
     (if length X < rows * cols * slcs then None
      else Some \<lparr>n_rows = rows, n_cols = cols,
                 mem = map (\<lambda>k. take (rows * cols) (drop (k * (rows * cols)) X)) [0 ..< slcs]\<rparr>)"

text \<open>\<open>Cube::slices(in_slice1, in_slice2)\<close>, both ends included. The \<open>int\<close> arguments are
  converted to unsigned, so a negative one is out of bounds.\<close>

definition slices :: "cube \<Rightarrow> int \<Rightarrow> int \<Rightarrow> cube option" where
  "slices c in_slice1 in_slice2 =
     (if in_slice1 < 0 \<or> in_slice2 < 0 \<or> in_slice1 > in_slice2 \<or> in_slice2 \<ge> int (n_slices c)
      then None
      else Some (c\<lparr>mem := take (nat (in_slice2 - in_slice1 + 1)) (drop (nat in_slice1) (mem c))\<rparr>))"

definition slice :: "cube \<Rightarrow> int \<Rightarrow> mat option" where
  "slice c in_slice =
     (if in_slice < 0 \<or> in_slice \<ge> int (n_slices c) then None
      else Some \<lparr>m_rows = n_rows c, m_cols = n_cols c, m_mem = mem c ! nat in_slice\<rparr>)"

text \<open>\<open>c.slice(in_slice) = x\<close>: a slice of a cube has a fixed size, and assigning a matrix
  of another size throws.\<close>

definition set_slice :: "cube \<Rightarrow> int \<Rightarrow> mat \<Rightarrow> cube option" where
  "set_slice c in_slice x =
     (if in_slice < 0 \<or> in_slice \<ge> int (n_slices c) then None
      else if m_rows x = n_rows c \<and> m_cols x = n_cols c
        then Some (c\<lparr>mem := (mem c)[nat in_slice := m_mem x]\<rparr>)
      else None)"

text \<open>\<open>Cube::max()\<close> throws on a cube without elements; otherwise it scans the memory,
  starting from minus infinity and replacing the maximum by every greater element.\<close>

definition cube_max :: "cube \<Rightarrow> double option" where
  "cube_max c =
     (if n_elem c = 0 then None
      else Some (foldl (\<lambda>max_val X_i. if dless max_val X_i then X_i else max_val) NInf
                   (concat (mem c))))"

definition cube_div :: "cube \<Rightarrow> double \<Rightarrow> cube" where
  "cube_div c val = c\<lparr>mem := map (map (\<lambda>x. ddiv x val)) (mem c)\<rparr>"

definition cube_mul :: "cube \<Rightarrow> double \<Rightarrow> cube" where
  "cube_mul c val = c\<lparr>mem := map (map (\<lambda>x. dmul x val)) (mem c)\<rparr>"

text \<open>\<open>arma::accu\<close> adds the elements at the even positions of the memory to one running
  sum and those at the odd positions to a second one, and adds the two sums at the end.\<close>

fun accumulate :: "double \<Rightarrow> double \<Rightarrow> double list \<Rightarrow> double" where
  "accumulate acc1 acc2 (x # y # src) = accumulate (dadd acc1 x) (dadd acc2 y) src"
| "accumulate acc1 acc2 [x] = dadd (dadd acc1 x) acc2"
| "accumulate acc1 acc2 [] = dadd acc1 acc2"

definition accu :: "cube \<Rightarrow> double" where
  "accu c = accumulate (Fin 0) (Fin 0) (concat (mem c))"

text \<open>\<open>inplace_trans\<close>: the element in row \<open>r\<close> and column \<open>c\<close> of a matrix with \<open>R\<close> rows is
  at position \<open>r + c * R\<close> of its memory.\<close>

definition inplace_trans :: "'eT Mat \<Rightarrow> 'eT Mat" where
  "inplace_trans X =
     \<lparr>m_rows = m_cols X, m_cols = m_rows X,
      m_mem = concat (map (\<lambda>r. map (\<lambda>c. m_mem X ! (r + c * m_rows X)) [0 ..< m_cols X])
                [0 ..< m_rows X])\<rparr>"

definition conv_to_unsigned_short :: "mat \<Rightarrow> 16 word Mat option" where
  "conv_to_unsigned_short X =
     map_option (\<lambda>m. \<lparr>m_rows = m_rows X, m_cols = m_cols X, m_mem = m\<rparr>)
       (those (map to_unsigned_short (m_mem X)))"

definition conv_to_double :: "16 word Mat \<Rightarrow> mat" where
  "conv_to_double X =
     \<lparr>m_rows = m_rows X, m_cols = m_cols X, m_mem = map of_unsigned_short (m_mem X)\<rparr>"

text \<open>
  What \<open>delete[]\<close> needs to know of a pointer: whether it is null, came from \<open>new[]\<close>, or
  points into the storage that a matrix owns (\<open>memptr()\<close>; a matrix without elements has
  no storage). \<open>new unsigned short[Nx*Ny]\<close> computes the size in \<open>int\<close>, where a product
  that does not fit is undefined behaviour. Releasing, with \<open>delete[]\<close>, storage that \<open>new[]\<close>
  did not return is undefined behaviour; the matrix that owns it releases it a second time
  at the end of its scope.
\<close>

datatype pointer = Null | New_array | Mat_storage

definition new_array :: "int \<Rightarrow> pointer option" where
  "new_array n = (if 0 \<le> n \<and> n < 2 ^ 31 then Some New_array else None)"

definition memptr :: "'eT Mat \<Rightarrow> pointer" where
  "memptr X = (if m_rows X * m_cols X = 0 then Null else Mat_storage)"

fun delete_array :: "pointer \<Rightarrow> unit option" where
  "delete_array Null = Some ()"
| "delete_array New_array = Some ()"
| "delete_array Mat_storage = None"


section \<open>The pipeline driver (lib-PGURE-SVT.cpp)\<close>

text \<open>
  The driver calls code that the headers \<open>medfilter.h\<close>, \<open>hotpixel.hpp\<close>, \<open>noise.hpp\<close>,
  \<open>arps.hpp\<close> and \<open>pgure.hpp\<close> declare. It is modelled over any implementation of these
  collaborators, a record of functions:
  \<^item> \<open>ConstantTimeMedianFilter src Nx Ny Nx Ny filtsize 1 memsize k\<close> is element \<open>k\<close> of
    \<open>FilteredBuffer\<close> after the call of line 141, where \<open>src\<close> is what \<open>Buffer\<close> points to;
  \<^item> \<open>HotPixelFilter\<close> gives the sequence as the call leaves it;
  \<^item> \<open>NoiseEstimate u alpha mu sigma size method\<close> gives the values of \<open>alpha\<close>, \<open>mu\<close> and
    \<open>sigma\<close> after \<open>noise->Estimate(u, alpha, mu, sigma, 4, NoiseMethod)\<close>: the call returns
    nothing and the estimator is deleted at once, so its results reach
    \<open>optimizer->Initialize\<close> through these three arguments only;
  \<^item> \<open>MotionEstimate\<close> gives the patches of \<open>motion->GetEstimate()\<close> after
    \<open>motion->Estimate\<close>;
  \<^item> \<open>Initialize\<close>, \<open>Optimize\<close> and \<open>Reconstruct\<close> are the methods of the \<open>PGURE\<close>
    object, whose state is a value of type \<open>'o\<close>.
  Faults raised inside these collaborators and the exhaustion of memory are not modelled.
\<close>

record ('p, 'o) collab =
  ConstantTimeMedianFilter ::
    "16 word list \<Rightarrow> int \<Rightarrow> int \<Rightarrow> int \<Rightarrow> int \<Rightarrow> int \<Rightarrow> int \<Rightarrow> int \<Rightarrow> nat \<Rightarrow> 16 word"
  HotPixelFilter :: "cube \<Rightarrow> double \<Rightarrow> cube"
  NoiseEstimate ::
    "cube \<Rightarrow> double \<Rightarrow> double \<Rightarrow> double \<Rightarrow> int \<Rightarrow> int \<Rightarrow> double \<times> double \<times> double"
  MotionEstimate :: "cube \<Rightarrow> int \<Rightarrow> int \<Rightarrow> int \<Rightarrow> int \<Rightarrow> int \<Rightarrow> 'p"
  Initialize :: "cube \<Rightarrow> 'p \<Rightarrow> int \<Rightarrow> int \<Rightarrow> double \<Rightarrow> double \<Rightarrow> double \<Rightarrow> 'o"
  Optimize :: "'o \<Rightarrow> double \<Rightarrow> double \<Rightarrow> double \<Rightarrow> nat \<Rightarrow> double \<times> 'o"
  Reconstruct :: "'o \<Rightarrow> double \<Rightarrow> cube"

text \<open>The arguments of \<open>PGURESVT\<close> that are only read. (\<open>numthreads\<close> configures OpenMP,
  which the driver itself does not use.)\<close>

record args =
  Bs :: int
  Bo :: int
  T :: int
  pgureOpt :: bool
  userLambda :: double
  MotionP :: int
  tol :: double
  MedianSize :: int
  hotpixelthreshold :: double
  numthreads :: int

text \<open>The variables of \<open>PGURESVT\<close> that \<open>func\<close>, which captures them by reference, writes:
  the output sequence and the noise parameters handed to \<open>noise->Estimate\<close>.\<close>

record captured =
  cleansequence :: cube
  alpha :: double
  mu :: double
  sigma :: double

text \<open>
  Running a dispatch: the model runs the worker threads one after the other in launch
  order and then the calling thread's indices, passing the state along; interleavings of
  the threads are not modelled. An index reaches \<open>mfunc\<close> and \<open>func\<close> converted to \<open>int\<close>
  (the frame count is an \<open>int\<close>, so the conversion keeps the value). A fault in any
  invocation ends the call.
\<close>

fun run_indices :: "(int \<Rightarrow> 's \<Rightarrow> 's option) \<Rightarrow> Integer_Type list \<Rightarrow> 's \<Rightarrow> 's option" where
  "run_indices f [] s = Some s"
| "run_indices f (i # is) s = do { s' \<leftarrow> f (int (unat i)) s; run_indices f is s' }"

definition run_parallel :: "(int \<Rightarrow> 's \<Rightarrow> 's option) \<Rightarrow> dispatch \<Rightarrow> 's \<Rightarrow> 's option" where
  "run_parallel f d s = run_indices f (invoked d) s"

text \<open>
  \<open>mfunc\<close>, lines 134 to 150, statement by statement. Line 140 makes \<open>Buffer\<close> point into
  the storage of \<open>curslice\<close> (the array of line 136 is never released), so the filter reads
  the transposed slice, and line 148 hands that storage to \<open>delete[]\<close>. Line 145 reads
  \<open>FilteredBuffer\<close> as a matrix of \<open>Nx\<close> rows and \<open>Ny\<close> columns and line 146 transposes it,
  so what line 147 assigns to the slice has \<open>Ny\<close> rows and \<open>Nx\<close> columns.
\<close>

definition mfunc ::
  "('p, 'o) collab \<Rightarrow> nat \<Rightarrow> nat \<Rightarrow> int \<Rightarrow> int \<Rightarrow> cube \<Rightarrow> int \<Rightarrow> cube \<Rightarrow> cube option" where
  "mfunc c Nx Ny filtsize memsize noisysequence i filteredsequence =
     do {
       Buffer \<leftarrow> new_array (int Nx * int Ny);
       FilteredBuffer \<leftarrow> new_array (int Nx * int Ny);
       x \<leftarrow> slice noisysequence i;
       curslice \<leftarrow> conv_to_unsigned_short x;
       let curslice = inplace_trans curslice;
       let Buffer = memptr curslice;
       let filtered = ConstantTimeMedianFilter c (m_mem curslice) (int Nx) (int Ny) (int Nx)
                        (int Ny) filtsize 1 memsize;
       let filslice = \<lparr>m_rows = Nx, m_cols = Ny, m_mem = map filtered [0 ..< Nx * Ny]\<rparr>;
       let filslice = inplace_trans filslice;
       filteredsequence \<leftarrow> set_slice filteredsequence i (conv_to_double filslice);
       _ \<leftarrow> delete_array Buffer;
       _ \<leftarrow> delete_array FilteredBuffer;
       Some filteredsequence
     }"

text \<open>The initial median filtering, lines 123 to 151: \<open>filteredsequence\<close> starts as zeros
  and \<open>mfunc\<close> runs on every frame index.\<close>

definition median_pass ::
  "('p, 'o) collab \<Rightarrow> 32 word \<Rightarrow> nat \<Rightarrow> nat \<Rightarrow> nat \<Rightarrow> int \<Rightarrow> int \<Rightarrow> cube \<Rightarrow> cube option" where
  "median_pass c total_cores Nx Ny num_images filtsize memsize noisysequence =
     run_parallel (mfunc c Nx Ny filtsize memsize noisysequence)
       (parallel0 total_cores (of_nat num_images)) (zeros Nx Ny num_images)"

text \<open>\<open>int framewindow = std::floor(T/2)\<close>: the division of two \<open>int\<close>s truncates towards
  zero.\<close>

definition framewindow_of :: "int \<Rightarrow> int" where
  "framewindow_of T' = (if 0 \<le> T' then T' div 2 else - ((- T') div 2))"

text \<open>Lines 187 to 198, for one of the two sequences.\<close>

definition window :: "cube \<Rightarrow> int \<Rightarrow> int \<Rightarrow> int \<Rightarrow> cube option" where
  "window sequence timeiter framewindow num_images =
     (if timeiter < framewindow then slices sequence 0 (2 * framewindow)
      else if timeiter \<ge> num_images - framewindow then
        slices sequence (num_images - 2 * framewindow - 1) (num_images - 1)
      else slices sequence (timeiter - framewindow) (timeiter + framewindow))"

text \<open>Lines 253 to 262: which slice of the reconstruction is written back.\<close>

definition out_slice :: "int \<Rightarrow> int \<Rightarrow> int \<Rightarrow> int \<Rightarrow> int" where
  "out_slice timeiter framewindow num_images T' =
     (if timeiter < framewindow then timeiter
      else if timeiter \<ge> num_images - framewindow then
        (let endseqFrame = timeiter - (num_images - T') in endseqFrame)
      else framewindow)"

text \<open>Lines 201 to 203, \<open>double inputmax = u.max(); u /= inputmax;\<close>, also applied to
  \<open>ufilter\<close>.\<close>

definition normalize :: "cube \<Rightarrow> (double \<times> cube) option" where
  "normalize u = do { inputmax \<leftarrow> cube_max u; Some (inputmax, cube_div u inputmax) }"

text \<open>Line 113, the value that \<open>func\<close> captures by value as \<open>lambda_\<close>.\<close>

definition lambda_init :: "double \<Rightarrow> double" where
  "lambda_init userLambda' = (if dle (Fin 0) userLambda' then userLambda' else Fin 0)"

text \<open>Lines 239 and 240, the starting value handed to \<open>optimizer->Optimize\<close>. (The product
  \<open>Nx*Ny*T\<close> is taken in \<open>int\<close>; the model does not bound it.)\<close>

definition lambda_start :: "double \<Rightarrow> int \<Rightarrow> cube \<Rightarrow> nat \<Rightarrow> nat \<Rightarrow> int \<Rightarrow> double" where
  "lambda_start lambda_cap timeiter u Nx Ny T' =
     (let lambda = lambda_cap
      in if timeiter = 0 then ddiv (accu u) (Fin (of_int (int Nx * int Ny * T'))) else lambda)"

text \<open>
  Lines 205 to 247, what \<open>func\<close> does with the two normalized windows: noise estimation,
  motion estimation and the thresholded reconstruction. The result is the reconstruction
  \<open>v\<close> with the values that \<open>alpha\<close>, \<open>mu\<close> and \<open>sigma\<close> have afterwards.
\<close>

definition reconstruction ::
  "('p, 'o) collab \<Rightarrow> args \<Rightarrow> nat \<Rightarrow> nat \<Rightarrow> nat \<Rightarrow> double \<Rightarrow> int \<Rightarrow> int \<Rightarrow> int \<Rightarrow> cube \<Rightarrow> cube \<Rightarrow>
   double \<Rightarrow> double \<Rightarrow> double \<Rightarrow> (cube \<times> double \<times> double \<times> double) option" where
  "reconstruction c a Nx Ny num_images lambda_cap NoiseMethod framewindow timeiter u ufilter
     alpha0 mu0 sigma0 =
     (let (alpha', mu', sigma') =
            (if pgureOpt a then NoiseEstimate c u alpha0 mu0 sigma0 4 NoiseMethod
             else (alpha0, mu0, sigma0));
          sequencePatches =
            MotionEstimate c ufilter timeiter framewindow (int num_images) (Bs a) (MotionP a);
          optimizer = Initialize c u sequencePatches (Bs a) (Bo a) alpha' sigma' mu'
      in do {
        v \<leftarrow> (if pgureOpt a then
                do {
                  let lambda = lambda_start lambda_cap timeiter u Nx Ny (T a);
                  umax \<leftarrow> cube_max u;
                  let (lambda, optimizer) = Optimize c optimizer (tol a) lambda umax 1000;
                  Some (Reconstruct c optimizer lambda)
                }
              else Some (Reconstruct c optimizer (userLambda a)));
        Some (v, alpha', mu', sigma')
      })"

text \<open>
  Lines 200 to 262, what \<open>func\<close> does once it has the two windows: normalization, the
  reconstruction, the rescaling of line 250 and the assignment
  \<open>cleansequence.slice(timeiter) = v.slice(j)\<close>, where \<open>j\<close> is the slice that lines 253 to
  262 choose.
\<close>

definition process_window ::
  "('p, 'o) collab \<Rightarrow> args \<Rightarrow> nat \<Rightarrow> nat \<Rightarrow> nat \<Rightarrow> double \<Rightarrow> int \<Rightarrow> int \<Rightarrow> int \<Rightarrow> cube \<Rightarrow> cube \<Rightarrow>
   int \<Rightarrow> captured \<Rightarrow> captured option" where
  "process_window c a Nx Ny num_images lambda_cap NoiseMethod framewindow timeiter u ufilter j s =
     do {
       (inputmax, u) \<leftarrow> normalize u;
       (filtermax, ufilter) \<leftarrow> normalize ufilter;
       (v, alpha', mu', sigma') \<leftarrow>
         reconstruction c a Nx Ny num_images lambda_cap NoiseMethod framewindow timeiter u ufilter
           (alpha s) (mu s) (sigma s);
       let v = cube_mul v inputmax;
       frame \<leftarrow> slice v j;
       clean \<leftarrow> set_slice (cleansequence s) timeiter frame;
       Some (s\<lparr>cleansequence := clean, alpha := alpha', mu := mu', sigma := sigma'\<rparr>)
     }"

text \<open>\<open>func\<close>, lines 183 to 264. The parameters before \<open>timeiter\<close> stand for what the
  closure captures and only reads (\<open>lambda_\<close> by value, the rest by reference), and \<open>s\<close>
  for the captured variables it writes.\<close>

definition func ::
  "('p, 'o) collab \<Rightarrow> args \<Rightarrow> nat \<Rightarrow> nat \<Rightarrow> nat \<Rightarrow> double \<Rightarrow> int \<Rightarrow> int \<Rightarrow> cube \<Rightarrow> cube \<Rightarrow>
   int \<Rightarrow> captured \<Rightarrow> captured option" where
  "func c a Nx Ny num_images lambda_cap NoiseMethod framewindow noisysequence filteredsequence
     timeiter s =
     do {
       _ \<leftarrow> cube_new Nx Ny (T a);
       u \<leftarrow> window noisysequence timeiter framewindow (int num_images);
       ufilter \<leftarrow> window filteredsequence timeiter framewindow (int num_images);
       process_window c a Nx Ny num_images lambda_cap NoiseMethod framewindow timeiter u ufilter
         (out_slice timeiter framewindow (int num_images) (T a)) s
     }"

text \<open>
  The loop over the frames: lines 112 and 113 (\<open>NoiseMethod\<close> and the \<open>lambda\<close> that \<open>func\<close>
  captures) and lines 181 to 265; \<open>s\<close> holds \<open>cleansequence\<close> and the noise parameters as
  they are before the first frame.
\<close>

definition frame_pass ::
  "('p, 'o) collab \<Rightarrow> 32 word \<Rightarrow> args \<Rightarrow> nat \<Rightarrow> nat \<Rightarrow> nat \<Rightarrow> cube \<Rightarrow> cube \<Rightarrow> captured \<Rightarrow>
   captured option" where
  "frame_pass c total_cores a Nx Ny num_images noisysequence filteredsequence s =
     (let NoiseMethod = 4;
          lambda = lambda_init (userLambda a);
          framewindow = framewindow_of (T a)
      in run_parallel
           (func c a Nx Ny num_images lambda NoiseMethod framewindow noisysequence
              filteredsequence)
           (parallel0 total_cores (of_nat num_images)) s)"

text \<open>
  \<open>PGURESVT\<close>: \<open>X\<close> is the input buffer, \<open>dims\<close> its extents (taken as non-negative, a
  negative extent is outside this model), and the result is the status code with the
  contents of the output buffer \<open>Y\<close>. \<open>total_cores\<close> is what
  \<open>std::thread::hardware_concurrency()\<close> reports.
\<close>

definition PGURESVT ::
  "('p, 'o) collab \<Rightarrow> 32 word \<Rightarrow> double list \<Rightarrow> nat \<times> nat \<times> nat \<Rightarrow> args \<Rightarrow>
   double \<Rightarrow> double \<Rightarrow> double \<Rightarrow> (int \<times> double list) option" where
  "PGURESVT c total_cores X dims a alpha0 mu0 sigma0 =
     (let (Nx, Ny, num_images) = dims
      in do {
        noisysequence \<leftarrow> cube_aux X Nx Ny num_images;
        let memsize = 512 * 1024;
        let filtsize = MedianSize a;
        filteredsequence \<leftarrow>
          median_pass c total_cores Nx Ny num_images filtsize memsize noisysequence;
        let noisysequence = HotPixelFilter c noisysequence (hotpixelthreshold a);
        s \<leftarrow>
          frame_pass c total_cores a Nx Ny num_images noisysequence filteredsequence
            \<lparr>cleansequence = zeros Nx Ny num_images, alpha = alpha0, mu = mu0,
             sigma = sigma0\<rparr>;
        Some (0, concat (mem (cleansequence s)))
      })"


subsection \<open>Concrete collaborators\<close>

text \<open>
  To run the model on concrete inputs the collaborators have to be given. \<open>plain\<close> is the
  simplest choice: the median filter copies its input, the hot-pixel filter returns the
  sequence as it is, the noise estimator leaves the parameters as they are, the motion
  estimate is the window it was computed from, the optimizer returns its starting value
  and the reconstruction is the normalized window itself.
\<close>

abbreviation (input) plain :: "(cube, cube) collab" where
  "plain \<equiv>
     \<lparr>ConstantTimeMedianFilter = (\<lambda>src w h ss ds r cn ms k. src ! k),
      HotPixelFilter = (\<lambda>x thr. x),
      NoiseEstimate = (\<lambda>u al m' si size method. (al, m', si)),
      MotionEstimate = (\<lambda>uf t fw n bs p. uf),
      Initialize = (\<lambda>u p bs bo al si m'. u),
      Optimize = (\<lambda>opt tl start mx n. (start, opt)),
      Reconstruct = (\<lambda>opt lam. opt)\<rparr>"

abbreviation (input) plain_args :: args where
  "plain_args \<equiv> \<lparr>Bs = 1, Bo = 1, T = 1, pgureOpt = False, userLambda = Fin 0, MotionP = 1,
     tol = Fin 0, MedianSize = 1, hotpixelthreshold = Fin 10, numthreads = 1\<rparr>"

text \<open>\<open>probe\<close> makes the starting value of the threshold search visible in the output: its
  optimizer reports 1/2 as the converged threshold and remembers the starting value it was
  given, and the reconstruction is the window filled with that starting value.\<close>

abbreviation (input) probe :: "(cube, cube) collab" where
  "probe \<equiv> plain\<lparr>Optimize := (\<lambda>opt tl start mx n.
       (Fin (1 / 2), opt\<lparr>mem := map (map (\<lambda>x. start)) (mem opt)\<rparr>))\<rparr>"


text \<open>\<open>flow\<close> makes the inputs of the collaborators visible in the output: its noise
  estimator returns the first value of the window it is given as the gain, its motion
  estimate is the window it is given, and its optimizer starts from the sum, value by value,
  of the window and the motion estimate it is given.\<close>

abbreviation (input) flow :: "(cube, cube) collab" where
  "flow \<equiv> plain\<lparr>NoiseEstimate := (\<lambda>u al m' si size method. (hd (hd (mem u)), m', si)),
      Initialize := (\<lambda>u p bs bo al si m'. u\<lparr>mem := map2 (map2 dadd) (mem u) (mem p)\<rparr>)\<rparr>"

section \<open>Facts about the scheduler\<close>

lemma unat_min: "unat (min a b) = min (unat a) (unat b)" for a b :: "'a::len word"
  by (simp add: min_def word_le_nat_alt)

lemma unat_Suc_lt: "a < b \<Longrightarrow> unat (a + 1) = unat a + 1" for a b :: "'a::len word"
proof -
  assume "a < b"
  then have "unat a < unat b" by (simp add: word_less_nat_alt)
  moreover have "unat b < 2 ^ LENGTH('a)" by (rule unsigned_less)
  ultimately have "unat a + 1 < 2 ^ LENGTH('a)" by linarith
  then have "unat a + unat (1 :: 'a word) < 2 ^ LENGTH('a)" by simp
  then have "unat (a + 1) = unat a + unat (1 :: 'a word)" by (rule unat_add_lem [THEN iffD1])
  then show ?thesis by simp
qed

lemma unat_ucast_32_64: "unat (ucast (x :: 32 word) :: 64 word) = unat x"
proof -
  have "unat x < 2 ^ 32" using unsigned_less [of x, where 'a = nat] by simp
  then have "unat x < 2 ^ 64" by simp
  then have "take_bit 64 (unat x) = unat x" by (rule take_bit_nat_eq_self)
  then show ?thesis by (simp add: unsigned_ucast_eq)
qed

lemma ceil_div_le: "0 < P \<Longrightarrow> (n + P - 1) div P \<le> (n::nat)"
proof -
  assume "0 < P"
  then have "n + P - 1 < Suc n * P" by (cases P) simp_all
  then have "(n + P - 1) div P < Suc n" by (rule less_mult_imp_div_less)
  then show ?thesis by simp
qed

lemma range_loop_unat:
  "a \<le> b \<Longrightarrow> map unat (range_loop a b) = [unat a ..< unat b]"
proof (induction a b rule: range_loop.induct)
  case (1 a b)
  show ?case
  proof (cases "a = b")
    case True
    then show ?thesis by (simp add: range_loop.simps)
  next
    case False
    with 1(2) have lt: "a < b" by simp
    then have le: "a + 1 \<le> b" by (simp add: inc_le)
    have u: "unat (a + 1) = unat a + 1"
      using lt by (rule unat_Suc_lt)
    have "map unat (range_loop (a + 1) b) = [unat (a + 1) ..< unat b]"
      using 1(1) False le by simp
    moreover have "unat a < unat b" using lt by (simp add: word_less_nat_alt)
    ultimately show ?thesis
      using False by (simp add: range_loop.simps [of a b] u upt_conv_Cons)
  qed
qed

lemma job_slice_unat: "map unat (job_slice a b) = [unat a ..< unat b]"
proof (cases "b \<le> a")
  case True
  then show ?thesis by (simp add: job_slice_def word_le_nat_alt)
next
  case False
  then have "a \<le> b" by simp
  with False show ?thesis by (simp add: job_slice_def range_loop_unat)
qed

lemma min_block: "min (min (f + k * c) l + c) l = min (f + (k + 1) * c) (l::nat)"
  by (simp add: min_def)

lemma worker_loop_unat:
  assumes nov: "unat c * unat (ucast (p - 1) :: 64 word) + unat f < 2 ^ 64"
    and lc: "unat l + unat c < 2 ^ 64"
    and le: "i \<le> ucast (p - 1)"
  shows "map (map unat) (worker_loop f l p c i) =
         map (\<lambda>k. [min (unat f + k * unat c) (unat l) ..< min (unat f + (k + 1) * unat c) (unat l)])
           [unat i ..< unat (ucast (p - 1) :: 64 word)]"
  using nov lc le
proof (induction f l p c i rule: worker_loop.induct)
  case (1 f l p c i)
  let ?P1 = "ucast (p - 1) :: 64 word"
  note nov = 1(2) and lc = 1(3) and le = 1(4)
  show ?case
  proof (cases "i = ?P1")
    case True
    then show ?thesis by (simp add: worker_loop.simps)
  next
    case False
    with le have lt: "i < ?P1" by simp
    then have ilt: "unat i < unat ?P1" by (simp add: word_less_nat_alt)
    have le': "i + 1 \<le> ?P1" using lt by (simp add: inc_le)
    have ui: "unat (i + 1) = unat i + 1" using lt by (rule unat_Suc_lt)
    have ci: "unat c * unat i + unat f < 2 ^ 64"
    proof -
      have "unat c * unat i + unat f \<le> unat c * unat ?P1 + unat f" using ilt by simp
      then show ?thesis using nov by (rule le_less_trans)
    qed
    have "unat c * unat i \<le> unat c * unat i + unat f" by simp
    then have "unat c * unat i < 2 ^ 64" using ci by (rule le_less_trans)
    then have m: "unat (c * i) = unat c * unat i"
      using unat_mult_lem [of c i] by simp
    have a: "unat (c * i + f) = unat c * unat i + unat f"
      using unat_add_lem [of "c * i" f] ci m by simp
    define first where "first = min (c * i + f) l"
    have uf: "unat first = min (unat f + unat i * unat c) (unat l)"
      unfolding first_def unat_min a by (simp add: add.commute mult.commute)
    then have "unat first + unat c < 2 ^ 64" using lc by simp
    then have al: "unat (first + c) = unat first + unat c"
      using unat_add_lem [of first c] by simp
    have ul: "unat (min (first + c) l) = min (unat f + (unat i + 1) * unat c) (unat l)"
      unfolding unat_min al uf by (rule min_block)
    have IH: "map (map unat) (worker_loop f l p c (i + 1)) =
         map (\<lambda>k. [min (unat f + k * unat c) (unat l) ..< min (unat f + (k + 1) * unat c) (unat l)])
           [unat (i + 1) ..< unat ?P1]"
      using 1(1) [OF False refl refl refl refl nov lc le'] .
    have "worker_loop f l p c i = job_slice first (min (first + c) l) # worker_loop f l p c (i + 1)"
      using False by (simp add: worker_loop.simps [of f l p c i] first_def Let_def)
    then show ?thesis
      using ilt by (simp add: IH job_slice_unat uf ul ui upt_conv_Cons)
  qed
qed

text \<open>The third branch, read as natural numbers. The calling thread's block starts at
  \<open>c * (P - 1)\<close> whatever \<open>dim_first\<close> is: line 64 of parallel.hpp does not add \<open>dim_first\<close>,
  as line 57 does for the workers.\<close>

lemma parallel_blocks:
  fixes total_cores :: "32 word" and dim_first dim_last :: Integer_Type and threshold :: "64 word"
  assumes fl: "dim_first \<le> dim_last"
    and big: "unat dim_last < 2 ^ 63"
    and thr: "threshold < dim_last - dim_first"
    and many: "ucast total_cores < dim_last - dim_first"
    and p: "1 < total_cores"
  defines "c \<equiv> (unat dim_last - unat dim_first + unat total_cores - 1) div unat total_cores"
  shows "map (map unat) (threads (parallel total_cores dim_first dim_last threshold)) =
         map (\<lambda>k. [min (unat dim_first + k * c) (unat dim_last) ..<
                    min (unat dim_first + (k + 1) * c) (unat dim_last)])
           [0 ..< unat total_cores - 1]"
    and "map unat (caller (parallel total_cores dim_first dim_last threshold)) =
         [c * (unat total_cores - 1) ..< unat dim_last]"
proof -
  define n where "n = dim_last - dim_first"
  define P where "P = (ucast total_cores :: 64 word)"
  define tpt where "tpt = (n + P - 1) div P"
  have un: "unat n = unat dim_last - unat dim_first"
    unfolding n_def using fl by (rule unat_sub)
  have uP: "unat P = unat total_cores"
    unfolding P_def by (rule unat_ucast_32_64)
  have P32: "unat total_cores < 2 ^ 32"
    using unsigned_less [of total_cores, where 'a = nat] by simp
  have Ppos: "1 < unat total_cores"
    using p by (simp add: word_less_nat_alt)
  have nle: "unat n \<le> unat dim_last" using un by simp
  have "unat n + unat P < 2 ^ 64" using nle big P32 uP by simp
  then have unP: "unat (n + P) = unat n + unat P"
    using unat_add_lem [of n P] by simp
  have "n + P \<noteq> 0"
    using unP Ppos uP
    by (metis add_is_0 not_less_zero unat_eq_zero unsigned_0 zero_less_one less_trans)
  then have unP1: "unat (n + P - 1) = unat n + unat P - 1"
    using unat_minus_one [of "n + P"] unP by simp
  have utpt: "unat tpt = c"
    unfolding tpt_def c_def unat_div unP1 un uP ..
  have cn: "c \<le> unat n"
    using ceil_div_le [of "unat total_cores" "unat n"] Ppos un unfolding c_def by simp
  have "total_cores \<noteq> 0" using p by auto
  then have uP1: "unat (ucast (total_cores - 1) :: 64 word) = unat total_cores - 1"
    using unat_minus_one [of total_cores] by (simp add: unat_ucast_32_64)
  have cP: "c * (unat total_cores - 1) \<le> unat n + unat total_cores - 1"
  proof -
    have "c * (unat total_cores - 1) \<le> c * unat total_cores" by simp
    also have "\<dots> \<le> unat n + unat total_cores - 1"
      unfolding c_def un by (rule div_times_less_eq_dividend)
    finally show ?thesis .
  qed
  have nov: "unat tpt * unat (ucast (total_cores - 1) :: 64 word) + unat dim_first < 2 ^ 64"
    using cP un fl big P32 unfolding utpt uP1 by (simp add: word_le_nat_alt)
  have lc: "unat dim_last + unat tpt < 2 ^ 64"
    using cn nle big unfolding utpt by simp
  have br1: "\<not> (total_cores \<le> 1 \<or> dim_last - dim_first \<le> threshold)"
    using p thr by (simp add: not_le)
  have br2: "\<not> dim_last - dim_first \<le> ucast total_cores"
    using many by (simp add: not_le)
  have par: "parallel total_cores dim_first dim_last threshold =
      \<lparr>threads = worker_loop dim_first dim_last total_cores tpt 0,
       caller = job_slice (tpt * ucast (total_cores - 1)) dim_last\<rparr>"
    using br1 br2 by (simp add: parallel_def tpt_def n_def P_def Let_def)
  show "map (map unat) (threads (parallel total_cores dim_first dim_last threshold)) =
         map (\<lambda>k. [min (unat dim_first + k * c) (unat dim_last) ..<
                    min (unat dim_first + (k + 1) * c) (unat dim_last)])
           [0 ..< unat total_cores - 1]"
    using worker_loop_unat [OF nov lc, of 0] by (simp add: par utpt uP1)
  have "unat tpt * unat (ucast (total_cores - 1) :: 64 word) < 2 ^ 64"
    using nov by simp
  then have "unat (tpt * ucast (total_cores - 1)) = c * (unat total_cores - 1)"
    using unat_mult_lem [of tpt "ucast (total_cores - 1) :: 64 word"] by (simp add: utpt uP1)
  then show "map unat (caller (parallel total_cores dim_first dim_last threshold)) =
         [c * (unat total_cores - 1) ..< unat dim_last]"
    by (simp add: par job_slice_unat)
qed


text \<open>With \<open>dim_first = 0\<close>, as the driver calls it, every index of the range is invoked
  exactly once, in each of the three branches.\<close>

lemma concat_blocks:
  "concat (map (\<lambda>k. [min (k * c) l ..< min ((k + 1) * c) l]) [0 ..< m]) = [0 ..< min (m * c) (l::nat)]"
proof (induction m)
  case 0
  then show ?case by simp
next
  case (Suc m)
  have "min (m * c) l \<le> min ((m + 1) * c) l" by (simp add: min_def)
  then have "[0 ..< min (m * c) l] @ [min (m * c) l ..< min ((m + 1) * c) l]
      = [0 ..< min ((m + 1) * c) l]"
    by (metis le0 upt_add_eq_append le_add_diff_inverse add_0)
  then show ?case using Suc by simp
qed

lemma invoked_parallel_from_zero:
  fixes total_cores :: "32 word" and dim_last :: Integer_Type and threshold :: "64 word"
  assumes big: "unat dim_last < 2 ^ 63"
  shows "map unat (invoked (parallel total_cores 0 dim_last threshold)) = [0 ..< unat dim_last]"
proof -
  have seq: "map unat (range_loop 0 dim_last) = [0 ..< unat dim_last]"
    using range_loop_unat [of 0 dim_last] by simp
  consider (a) "total_cores \<le> 1 \<or> dim_last - 0 \<le> threshold"
    | (b) "\<not> (total_cores \<le> 1 \<or> dim_last - 0 \<le> threshold)" "dim_last - 0 \<le> ucast total_cores"
    | (c) "\<not> (total_cores \<le> 1 \<or> dim_last - 0 \<le> threshold)" "\<not> dim_last - 0 \<le> ucast total_cores"
    by blast
  then show ?thesis
  proof cases
    case a
    then show ?thesis by (simp add: parallel_def invoked_def seq)
  next
    case b
    have "concat (map (\<lambda>index. [index]) xs) = xs" for xs :: "Integer_Type list"
      by (induction xs) simp_all
    then show ?thesis using b by (simp add: parallel_def invoked_def seq)
  next
    case c
    define cc where "cc = (unat dim_last - unat (0 :: Integer_Type) + unat total_cores - 1) div unat total_cores"
    have h: "(0 :: Integer_Type) \<le> dim_last" "threshold < dim_last - 0"
      "ucast total_cores < dim_last - 0" "1 < total_cores"
      using c by (simp_all add: not_le)
    note b = parallel_blocks [OF h(1) big h(2) h(3) h(4), folded cc_def]
    have "map unat (invoked (parallel total_cores 0 dim_last threshold))
        = concat (map (map unat) (threads (parallel total_cores 0 dim_last threshold)))
          @ map unat (caller (parallel total_cores 0 dim_last threshold))"
      by (simp add: invoked_def map_concat)
    also have "\<dots> = [0 ..< min ((unat total_cores - 1) * cc) (unat dim_last)]
          @ [cc * (unat total_cores - 1) ..< unat dim_last]"
      unfolding b using concat_blocks [of cc "unat dim_last" "unat total_cores - 1"] by simp
    also have "\<dots> = [0 ..< unat dim_last]"
    proof (cases "cc * (unat total_cores - 1) \<le> unat dim_last")
      case True
      then have "min ((unat total_cores - 1) * cc) (unat dim_last) = cc * (unat total_cores - 1)"
        by (simp add: mult.commute)
      then show ?thesis
        using True by (metis le0 upt_add_eq_append le_add_diff_inverse add_0)
    next
      case False
      then show ?thesis by (simp add: mult.commute)
    qed
    finally show ?thesis .
  qed
qed



section \<open>Facts about cubes\<close>

text \<open>The rules that evaluate the arithmetic and the driver on concrete inputs.\<close>

lemmas double_eval = round_double_def exponent_of_def round_even_def pow2_def bit_length.simps

lemmas driver_eval = func_def process_window_def reconstruction_def normalize_def
  window_def slices_def slice_def set_slice_def cube_max_def cube_div_def cube_mul_def cube_new_def
  n_elem_def n_slices_def out_slice_def framewindow_of_def lambda_start_def lambda_init_def
  accu_def zeros_def Let_def numeral_2_eq_2

lemma foldl_max_zero:
  "\<forall>x \<in> set xs. x = Fin 0 \<Longrightarrow> xs \<noteq> [] \<Longrightarrow>
   foldl (\<lambda>max_val X_i. if dless max_val X_i then X_i else max_val) NInf xs = Fin 0"
proof -
  have z: "\<forall>x \<in> set xs. x = Fin 0 \<Longrightarrow>
    foldl (\<lambda>max_val X_i. if dless max_val X_i then X_i else max_val) (Fin 0) xs = Fin 0" for xs
    by (induction xs) simp_all
  assume "\<forall>x \<in> set xs. x = Fin 0" "xs \<noteq> []"
  then show ?thesis by (cases xs) (simp_all add: z)
qed

lemma concat_nonempty:
  "wf_cube u \<Longrightarrow> n_elem u \<noteq> 0 \<Longrightarrow> concat (mem u) \<noteq> []"
  by (cases "mem u") (auto simp: wf_cube_def n_elem_def n_slices_def)


section \<open>Facts about the driver\<close>

subsection \<open>The median pass\<close>

text \<open>
  On a frame that has elements, \<open>mfunc\<close> never returns normally: \<open>Buffer\<close> points into the
  storage of \<open>curslice\<close> when line 148 hands it to \<open>delete[]\<close>. On a frame that is not
  square it does not get that far: the matrix assigned to the slice at line 147 has the
  transposed extents and the assignment throws.
\<close>

lemma mfunc_faults:
  assumes "n_rows noisysequence * n_cols noisysequence \<noteq> 0"
  shows "mfunc c Nx Ny filtsize memsize noisysequence i filteredsequence = None"
proof -
  have "memptr (inplace_trans cs) = Mat_storage"
    if "slice noisysequence i = Some x" "conv_to_unsigned_short x = Some cs" for x cs
    using that assms
    by (auto simp: slice_def conv_to_unsigned_short_def memptr_def inplace_trans_def
        split: if_splits)
  then show ?thesis
    unfolding mfunc_def Let_def
    by (auto split: Option.bind_split)
qed

lemma mfunc_not_square:
  assumes "Nx \<noteq> Ny" and "n_rows filteredsequence = Nx" and "n_cols filteredsequence = Ny"
  shows "mfunc c Nx Ny filtsize memsize noisysequence i filteredsequence = None"
  using assms
  unfolding mfunc_def Let_def
  by (auto simp: set_slice_def inplace_trans_def conv_to_double_def split: Option.bind_split)

lemma run_indices_None:
  "(\<And>i s. f i s = None) \<Longrightarrow> xs \<noteq> [] \<Longrightarrow> run_indices f xs s = None"
  by (cases xs) simp_all

lemma unat_of_nat_64: "n < 2 ^ 63 \<Longrightarrow> unat (of_nat n :: 64 word) = n"
proof -
  assume "n < 2 ^ 63"
  then have "n < 2 ^ 64" by simp
  then show ?thesis by (simp add: unat_of_nat take_bit_nat_eq_self)
qed

lemma invoked_parallel0_nonempty:
  assumes "0 < n" and "n < 2 ^ 63"
  shows "invoked (parallel0 total_cores (of_nat n)) \<noteq> []"
proof -
  have "unat (of_nat n :: 64 word) < 2 ^ 63"
    using assms(2) by (simp add: unat_of_nat_64)
  then have "map unat (invoked (parallel0 total_cores (of_nat n)))
      = [0 ..< unat (of_nat n :: 64 word)]"
    unfolding parallel0_def by (rule invoked_parallel_from_zero)
  then have "map unat (invoked (parallel0 total_cores (of_nat n))) = [0 ..< n]"
    using assms(2) by (simp add: unat_of_nat_64)
  moreover have "[0 ..< n] \<noteq> []" using assms(1) by simp
  ultimately show ?thesis
    by (metis list.map_disc_iff)
qed

lemma invoked_parallel0_empty: "invoked (parallel0 total_cores (of_nat 0)) = []"
  by (simp add: parallel0_def parallel_def invoked_def range_loop.simps)


lemma invoked_one_core_two: "invoked (parallel0 1 2) = [0, 1]"
  by code_simp

lemma median_pass_faults:
  assumes "0 < n" and "n < 2 ^ 63" and "n_rows noisysequence * n_cols noisysequence \<noteq> 0"
  shows "median_pass c total_cores Nx Ny n filtsize memsize noisysequence = None"
  unfolding median_pass_def run_parallel_def
  by (rule run_indices_None) (rule mfunc_faults [OF assms(3)],
      rule invoked_parallel0_nonempty [OF assms(1,2)])

text \<open>So a call of \<open>PGURESVT\<close> on a sequence that has a frame, and whose frames have
  elements, does not return.\<close>

lemma PGURESVT_faults:
  assumes "0 < n" and "n < 2 ^ 63" and "Nx * Ny \<noteq> 0"
  shows "PGURESVT c total_cores X (Nx, Ny, n) a alpha0 mu0 sigma0 = None"
proof (cases "cube_aux X Nx Ny n")
  case None
  then show ?thesis by (simp add: PGURESVT_def)
next
  case (Some raw)
  then have "n_rows raw * n_cols raw \<noteq> 0"
    using assms(3) by (auto simp: cube_aux_def split: if_splits)
  then have "median_pass c total_cores Nx Ny n fs ms raw = None" for fs ms
    using assms(1,2) by (intro median_pass_faults)
  then show ?thesis using Some by (simp add: PGURESVT_def)
qed

lemma PGURESVT_zero_or_fault:
  "PGURESVT c total_cores X dims a alpha0 mu0 sigma0 = None
   \<or> (\<exists>Y. PGURESVT c total_cores X dims a alpha0 mu0 sigma0 = Some (0, Y))"
proof -
  obtain Nx Ny num_images where d: "dims = (Nx, Ny, num_images)" by (cases dims)
  show ?thesis
    unfolding PGURESVT_def d Let_def prod.case
    by (auto split: Option.bind_split)
qed

text \<open>A sequence without frames gives nothing to do: the call returns 0.\<close>

lemma PGURESVT_no_frames:
  "PGURESVT c total_cores X (Nx, Ny, 0) a alpha0 mu0 sigma0 = Some (0, [])"
  using invoked_parallel0_empty [of total_cores]
  by (simp add: PGURESVT_def cube_aux_def median_pass_def frame_pass_def run_parallel_def
      zeros_def)


subsection \<open>What \<open>func\<close> hands to its collaborators\<close>

text \<open>What \<open>func\<close> hands to a collaborator is observed by replacing the collaborator with
  one that ignores the argument in question and uses the expected value instead: \<open>func\<close>
  behaves the same.\<close>

lemma reconstruction_start:
  "reconstruction c a Nx Ny n lam nm fw t u uf al m si =
   reconstruction
     (c\<lparr>Optimize := \<lambda>opt tl start. Optimize c opt tl (lambda_start lam t u Nx Ny (T a))\<rparr>)
     a Nx Ny n lam' nm fw t u uf al m si"
  by (cases "pgureOpt a") (simp_all add: reconstruction_def Let_def split_def)

lemma process_window_start:
  "process_window c a Nx Ny n lam nm fw t u uf j s =
   process_window (c\<lparr>Optimize := \<lambda>opt tl start.
       Optimize c opt tl (lambda_start lam t (snd (the (normalize u))) Nx Ny (T a))\<rparr>)
     a Nx Ny n lam' nm fw t u uf j s"
proof (cases "normalize u")
  case None
  then show ?thesis by (simp add: process_window_def)
next
  case (Some p)
  obtain m u' where p: "p = (m, u')" by (cases p)
  show ?thesis
    unfolding process_window_def Some p
    using reconstruction_start [of c a Nx Ny n lam nm fw t u' _ _ _ _ lam']
    by (simp split: Option.bind_split)
qed

lemma func_start:
  "func c a Nx Ny n lam nm fw noisy filt t s =
   func (c\<lparr>Optimize := \<lambda>opt tl start.
       Optimize c opt tl
         (lambda_start lam t (snd (the (normalize (the (window noisy t fw (int n)))))) Nx Ny
            (T a))\<rparr>)
     a Nx Ny n lam' nm fw noisy filt t s"
proof (cases "window noisy t fw (int n)")
  case None
  then show ?thesis by (simp add: func_def split: Option.bind_split)
next
  case (Some u)
  show ?thesis
    unfolding func_def Some
    using process_window_start [of c a Nx Ny n lam nm fw t u _ _ s lam']
    by (simp split: Option.bind_split)
qed

lemma lambda_start_cases:
  "lambda_start (lambda_init (userLambda a)) t
     (snd (the (normalize (the (window noisy t fw n))))) Nx Ny (T a) =
   (if t = 0
    then ddiv (accu (snd (the (normalize (the (window noisy 0 fw n))))))
           (Fin (of_int (int Nx * int Ny * T a)))
    else if dle (Fin 0) (userLambda a) then userLambda a else Fin 0)"
  by (simp add: lambda_start_def lambda_init_def)




text \<open>The same for the loop over the frames, where the expected value may depend on the
  frame.\<close>

lemma frame_pass_start:
  fixes c :: "('p, 'o) collab"
  shows "frame_pass c total_cores a Nx Ny n noisy filt s =
   run_parallel
     (\<lambda>timeiter. func (c\<lparr>Optimize := \<lambda>opt tl start. Optimize c opt tl
          (if timeiter = 0
           then ddiv (accu (snd (the (normalize (the (window noisy 0 (framewindow_of (T a)) (int n)))))))
                  (Fin (of_int (int Nx * int Ny * T a)))
           else if dle (Fin 0) (userLambda a) then userLambda a else Fin 0)\<rparr>)
        a Nx Ny n l 4 (framewindow_of (T a)) noisy filt timeiter)
     (parallel0 total_cores (of_nat n)) s"
proof -
  have "func c a Nx Ny n (lambda_init (userLambda a)) 4 (framewindow_of (T a)) noisy filt =
    (\<lambda>timeiter. func (c\<lparr>Optimize := \<lambda>opt tl start. Optimize c opt tl
          (if timeiter = 0
           then ddiv (accu (snd (the (normalize (the (window noisy 0 (framewindow_of (T a)) (int n)))))))
                  (Fin (of_int (int Nx * int Ny * T a)))
           else if dle (Fin 0) (userLambda a) then userLambda a else Fin 0)\<rparr>)
        a Nx Ny n l 4 (framewindow_of (T a)) noisy filt timeiter)"
  proof (intro ext)
    fix timeiter s
    show "func c a Nx Ny n (lambda_init (userLambda a)) 4 (framewindow_of (T a)) noisy filt timeiter s =
      func (c\<lparr>Optimize := \<lambda>opt tl start. Optimize c opt tl
          (if timeiter = 0
           then ddiv (accu (snd (the (normalize (the (window noisy 0 (framewindow_of (T a)) (int n)))))))
                  (Fin (of_int (int Nx * int Ny * T a)))
           else if dle (Fin 0) (userLambda a) then userLambda a else Fin 0)\<rparr>)
        a Nx Ny n l 4 (framewindow_of (T a)) noisy filt timeiter s"
      using func_start [of c a Nx Ny n "lambda_init (userLambda a)" 4 "framewindow_of (T a)"
          noisy filt timeiter s l]
      unfolding lambda_start_cases .
  qed
  then show ?thesis
    by (simp add: frame_pass_def Let_def)
qed



subsection \<open>The order of the frames\<close>

text \<open>With noise estimation off, \<open>func\<close> writes nothing but its own slice of the output, so
  the order in which the frames are processed does not matter.\<close>

lemma set_slice_commute:
  assumes "i = j \<longrightarrow> x = y"
  shows "set_slice c i x \<bind> (\<lambda>c'. set_slice c' j y) = set_slice c j y \<bind> (\<lambda>c'. set_slice c' i x)"
proof (cases "i = j")
  case True
  then show ?thesis using assms by simp
next
  case False
  show ?thesis
  proof (cases "set_slice c i x = None \<or> set_slice c j y = None")
    case True
    then show ?thesis
      by (auto simp: set_slice_def n_slices_def split: if_splits)
  next
    case False
    then have i: "0 \<le> i" and j: "0 \<le> j"
      by (auto simp: set_slice_def split: if_splits)
    then have "nat i \<noteq> nat j" using \<open>i \<noteq> j\<close> by simp
    then show ?thesis
      using False by (auto simp: set_slice_def n_slices_def list_update_swap split: if_splits)
  qed
qed

lemma func_commute:
  fixes c :: "('p, 'o) collab"
  assumes off: "\<not> pgureOpt a"
  shows "func c a Nx Ny n l nm fw nz fl i s \<bind> func c a Nx Ny n l nm fw nz fl j =
         func c a Nx Ny n l nm fw nz fl j s \<bind> func c a Nx Ny n l nm fw nz fl i"
proof -
  define F where "F t =
     do {
       _ \<leftarrow> cube_new Nx Ny (T a);
       u \<leftarrow> window nz t fw (int n);
       ufilter \<leftarrow> window fl t fw (int n);
       (inputmax, u) \<leftarrow> normalize u;
       (filtermax, ufilter) \<leftarrow> normalize ufilter;
       slice (cube_mul (Reconstruct c (Initialize c u
           (MotionEstimate c ufilter t fw (int n) (Bs a) (MotionP a)) (Bs a) (Bo a)
           (alpha s) (sigma s) (mu s)) (userLambda a)) inputmax)
         (out_slice t fw (int n) (T a))
     }" for t
  have step: "func c a Nx Ny n l nm fw nz fl t s' =
      F t \<bind> (\<lambda>frame. set_slice (cleansequence s') t frame
         \<bind> (\<lambda>clean. Some (s'\<lparr>cleansequence := clean\<rparr>)))"
    if "alpha s' = alpha s" "mu s' = mu s" "sigma s' = sigma s" for t s'
    using that off
    by (simp add: func_def process_window_def reconstruction_def F_def Let_def split_def
        split: Option.bind_split)
  show ?thesis
  proof (cases "F i")
    case None
    then show ?thesis
      by (auto simp: step split: Option.bind_split)
  next
    case (Some x)
    note Fi = this
    show ?thesis
    proof (cases "F j")
      case None
      then show ?thesis
        by (auto simp: step split: Option.bind_split)
    next
      case (Some y)
      have e: "i = j \<longrightarrow> x = y" using Fi Some by auto
      have "func c a Nx Ny n l nm fw nz fl i s \<bind> func c a Nx Ny n l nm fw nz fl j
          = (set_slice (cleansequence s) i x \<bind> (\<lambda>c'. set_slice c' j y))
            \<bind> (\<lambda>clean. Some (s\<lparr>cleansequence := clean\<rparr>))"
        by (auto simp: step Fi Some split: Option.bind_split)
      also have "\<dots> = (set_slice (cleansequence s) j y \<bind> (\<lambda>c'. set_slice c' i x))
            \<bind> (\<lambda>clean. Some (s\<lparr>cleansequence := clean\<rparr>))"
        by (simp only: set_slice_commute [OF e])
      also have "\<dots> = func c a Nx Ny n l nm fw nz fl j s \<bind> func c a Nx Ny n l nm fw nz fl i"
        by (auto simp: step Fi Some split: Option.bind_split)
      finally show ?thesis .
    qed
  qed
qed

lemma run_indices_fold:
  "run_indices f xs s = fold (\<lambda>i so. so \<bind> f (int (unat i))) xs (Some s)"
proof -
  have "so \<bind> (\<lambda>s. run_indices f xs s) = fold (\<lambda>i so. so \<bind> f (int (unat i))) xs so" for so
  proof (induction xs arbitrary: so)
    case Nil
    then show ?case by simp
  next
    case (Cons i xs)
    have "so \<bind> (\<lambda>s. run_indices f (i # xs) s)
        = (so \<bind> f (int (unat i))) \<bind> (\<lambda>s. run_indices f xs s)"
      by (cases so) simp_all
    then show ?case using Cons.IH [of "so \<bind> f (int (unat i))"] by simp
  qed
  from this [of "Some s"] show ?thesis by simp
qed

lemma frame_order_irrelevant_without_estimation:
  assumes off: "\<not> pgureOpt a" and perm: "mset xs = mset ys"
  shows "run_indices (func c a Nx Ny n l nm fw nz fl) xs s
       = run_indices (func c a Nx Ny n l nm fw nz fl) ys s"
proof -
  let ?g = "\<lambda>(i :: Integer_Type) so. so \<bind> func c a Nx Ny n l nm fw nz fl (int (unat i))"
  have "?g i \<circ> ?g j = ?g j \<circ> ?g i" for i j
  proof
    fix so
    show "(?g i \<circ> ?g j) so = (?g j \<circ> ?g i) so"
      using func_commute [OF off, of c Nx Ny n l nm fw nz fl]
      by (cases so) simp_all
  qed
  then have "fold ?g xs = fold ?g ys"
    using perm by (intro fold_multiset_equiv) auto
  then show ?thesis by (simp add: run_indices_fold)
qed

section \<open>Claims about the scheduler\<close>

text \<open>
  Claim C1 (every index of \<open>[first, last)\<close> is invoked exactly once, also for
  \<open>first > 0\<close>). The code does not do this in the block branch when \<open>first > 0\<close>: with 4
  execution units, \<open>parallel(func, 10, 20, 1)\<close> gives the workers \<open>[10,13)\<close>, \<open>[13,16)\<close> and
  \<open>[16,19)\<close>, and the calling thread runs \<open>job_slice(9, 20)\<close>: index 9, which is outside the
  range, is invoked, and the indices 10 to 18 are invoked twice.
\<close>

theorem parallel_nonzero_first_repeats:
  "parallel 4 10 20 1 =
     \<lparr>threads = [[10, 11, 12], [13, 14, 15], [16, 17, 18]],
      caller = [9, 10, 11, 12, 13, 14, 15, 16, 17, 18, 19]\<rparr>
   \<and> count_list (invoked (parallel 4 10 20 1)) 10 = 2
   \<and> count_list (invoked (parallel 4 10 20 1)) 9 = 1"
  by code_simp

text \<open>
  Claim C5 as stated (for \<open>n\<close> above the threshold and not smaller than \<open>P\<close>, \<open>P - 1\<close>
  workers run the first \<open>P - 1\<close> blocks of \<open>ceil(n / P)\<close> indices and the calling thread the
  final block) fails at \<open>n = P\<close>: the guard of the second branch is \<open>n <= total_cores\<close>, so
  four indices on four execution units get one worker thread each and the calling thread
  runs nothing. Nor does every block have \<open>ceil(n / P)\<close> indices: blocks are cut at \<open>last\<close>,
  so five indices on four execution units give the blocks 0-1, 2-3 and 4, and nothing is
  left for the calling thread.
\<close>

theorem parallel_blocks_counterexample:
  "(1 :: 64 word) < 4 - 0 \<and> \<not> (4 - 0 :: 64 word) < ucast (4 :: 32 word) \<and> (1 :: 32 word) < 4
   \<and> parallel 4 0 4 1 = \<lparr>threads = [[0], [1], [2], [3]], caller = []\<rparr>
   \<and> spec_block_partition 4 0 4 = ([[0], [1], [2]], [3])
   \<and> (map (map unat) (threads (parallel 4 0 4 1)), map unat (caller (parallel 4 0 4 1)))
       \<noteq> spec_block_partition 4 0 4
   \<and> (1 :: 64 word) < 5 - 0 \<and> \<not> (5 - 0 :: 64 word) < ucast (4 :: 32 word)
   \<and> parallel 4 0 5 1 = \<lparr>threads = [[0, 1], [2, 3], [4]], caller = []\<rparr>
   \<and> spec_block_partition 4 0 5 = ([[0, 1], [2, 3], [4, 5]], [])
   \<and> (map (map unat) (threads (parallel 4 0 5 1)), map unat (caller (parallel 4 0 5 1)))
       \<noteq> spec_block_partition 4 0 5"
  by code_simp

text \<open>
  Claim C5, amended: when \<open>n = last - first\<close> is above the threshold and strictly larger
  than the number \<open>P > 1\<close> of execution units (and \<open>last < 2 ^ 63\<close>, so that nothing wraps
  around), \<open>parallel\<close> launches \<open>P - 1\<close> worker threads, and worker \<open>k\<close> runs the contiguous
  block from \<open>first + k * c\<close> to \<open>first + (k + 1) * c\<close>, both clamped at \<open>last\<close>, where
  \<open>c = ceil(n / P)\<close>; a block has at most \<open>c\<close> indices. For \<open>first = 0\<close> the calling thread
  runs the rest, \<open>[c * (P - 1), last)\<close>, which is empty when \<open>c * (P - 1) \<ge> last\<close>.
\<close>

theorem parallel_block_partition:
  fixes total_cores :: "32 word" and dim_first dim_last :: Integer_Type and threshold :: "64 word"
  assumes "dim_first \<le> dim_last"
    and "unat dim_last < 2 ^ 63"
    and "threshold < dim_last - dim_first"
    and "ucast total_cores < dim_last - dim_first"
    and "1 < total_cores"
  defines "c \<equiv> (unat dim_last - unat dim_first + unat total_cores - 1) div unat total_cores"
  shows "length (threads (parallel total_cores dim_first dim_last threshold)) = unat total_cores - 1
    \<and> map (map unat) (threads (parallel total_cores dim_first dim_last threshold)) =
        map (\<lambda>k. [min (unat dim_first + k * c) (unat dim_last) ..<
                   min (unat dim_first + (k + 1) * c) (unat dim_last)])
          [0 ..< unat total_cores - 1]
    \<and> (dim_first = 0 \<longrightarrow>
        map unat (caller (parallel total_cores dim_first dim_last threshold)) =
          [c * (unat total_cores - 1) ..< unat dim_last])"
proof -
  note b = parallel_blocks [OF assms(1-5), folded c_def]
  have "length (map (map unat) (threads (parallel total_cores dim_first dim_last threshold)))
      = unat total_cores - 1"
    unfolding b(1) by simp
  then have len: "length (threads (parallel total_cores dim_first dim_last threshold))
      = unat total_cores - 1"
    by simp
  show ?thesis
    by (intro conjI impI) (rule len, rule b(1), rule b(2))
qed

theorem parallel_block_partition_witness:
  "(0 :: 64 word) \<le> 10 \<and> unat (10 :: 64 word) < 2 ^ 63 \<and> (1 :: 64 word) < 10 - 0
   \<and> ucast (4 :: 32 word) < (10 - 0 :: 64 word) \<and> (1 :: 32 word) < 4
   \<and> length (threads (parallel 4 0 10 1)) = 3
   \<and> map (map unat) (threads (parallel 4 0 10 1)) = [[0, 1, 2], [3, 4, 5], [6, 7, 8]]
   \<and> map unat (caller (parallel 4 0 10 1)) = [9]"
proof -
  have h: "(0 :: 64 word) \<le> 10" "unat (10 :: 64 word) < 2 ^ 63" "(1 :: 64 word) < 10 - 0"
    "ucast (4 :: 32 word) < (10 - 0 :: 64 word)" "(1 :: 32 word) < 4"
    by (simp_all add: word_less_nat_alt unat_ucast_32_64)
  have c: "(unat (10 :: 64 word) - unat (0 :: 64 word) + unat (4 :: 32 word) - 1)
      div unat (4 :: 32 word) = 3"
    by simp
  have u: "[0 ..< unat (4 :: 32 word) - 1] = [0, 1, 2]"
    by (simp add: upt_rec)
  show ?thesis
    using h parallel_block_partition [OF h] unfolding c u
    by (simp add: upt_rec)
qed



section \<open>Claims about the pipeline driver\<close>

text \<open>
  The claims about \<open>func\<close> are stated on \<open>func\<close>, \<open>process_window\<close> and \<open>frame_pass\<close>, for any
  two sequences that \<open>func\<close> finds in \<open>noisysequence\<close> and \<open>filteredsequence\<close>. In the result
  of \<open>PGURESVT\<close> they do not show: by \<open>PGURESVT_faults\<close> a call on a sequence with a frame
  that has elements ends in the median pass, before the first call of \<open>func\<close>.
\<close>

text \<open>
  Claim C2: for \<open>T = 5\<close>, hence \<open>framewindow = 2\<close>, and 10 frames, \<open>func\<close> processes for
  target 0 the window of the frames 0 to 4, for target 9 that of the frames 5 to 9 and for
  target 5 that of the frames 3 to 7 (of \<open>noisysequence\<close> and of \<open>filteredsequence\<close> alike),
  and assigns to \<open>cleansequence.slice(timeiter)\<close> the slice of the rescaled reconstruction
  whose index is the last argument but one of \<open>process_window\<close>: in the clamped cases
  (targets 0, 1, 8 and 9) the target's offset 0, 1, 3 or 4 within the fixed block of the
  first or last five frames, not the centre 2, which is taken for target 5.
\<close>

theorem frame_window_example:
  fixes c :: "('p, 'o) collab"
    and f0 f1 f2 f3 f4 f5 f6 f7 f8 f9 g0 g1 g2 g3 g4 g5 g6 g7 g8 g9 :: "double list"
    and r k :: nat
  assumes "T a = 5"
  defines "noisy \<equiv> \<lparr>n_rows = r, n_cols = k, mem = [f0, f1, f2, f3, f4, f5, f6, f7, f8, f9]\<rparr>"
    and "filt \<equiv> \<lparr>n_rows = r, n_cols = k, mem = [g0, g1, g2, g3, g4, g5, g6, g7, g8, g9]\<rparr>"
  shows "framewindow_of (T a) = 2
    \<and> func c a Nx Ny 10 l nm (framewindow_of (T a)) noisy filt 0 s =
        process_window c a Nx Ny 10 l nm 2 0
          \<lparr>n_rows = r, n_cols = k, mem = [f0, f1, f2, f3, f4]\<rparr>
          \<lparr>n_rows = r, n_cols = k, mem = [g0, g1, g2, g3, g4]\<rparr> 0 s
    \<and> func c a Nx Ny 10 l nm (framewindow_of (T a)) noisy filt 9 s =
        process_window c a Nx Ny 10 l nm 2 9
          \<lparr>n_rows = r, n_cols = k, mem = [f5, f6, f7, f8, f9]\<rparr>
          \<lparr>n_rows = r, n_cols = k, mem = [g5, g6, g7, g8, g9]\<rparr> 4 s
    \<and> func c a Nx Ny 10 l nm (framewindow_of (T a)) noisy filt 5 s =
        process_window c a Nx Ny 10 l nm 2 5
          \<lparr>n_rows = r, n_cols = k, mem = [f3, f4, f5, f6, f7]\<rparr>
          \<lparr>n_rows = r, n_cols = k, mem = [g3, g4, g5, g6, g7]\<rparr> 2 s
    \<and> func c a Nx Ny 10 l nm (framewindow_of (T a)) noisy filt 1 s =
        process_window c a Nx Ny 10 l nm 2 1
          \<lparr>n_rows = r, n_cols = k, mem = [f0, f1, f2, f3, f4]\<rparr>
          \<lparr>n_rows = r, n_cols = k, mem = [g0, g1, g2, g3, g4]\<rparr> 1 s
    \<and> func c a Nx Ny 10 l nm (framewindow_of (T a)) noisy filt 8 s =
        process_window c a Nx Ny 10 l nm 2 8
          \<lparr>n_rows = r, n_cols = k, mem = [f5, f6, f7, f8, f9]\<rparr>
          \<lparr>n_rows = r, n_cols = k, mem = [g5, g6, g7, g8, g9]\<rparr> 3 s"
  using assms(1)
  by (simp add: noisy_def filt_def func_def framewindow_of_def window_def slices_def n_slices_def
      out_slice_def cube_new_def)

theorem frame_window_example_witness:
  "T (plain_args\<lparr>T := 5\<rparr>) = 5
   \<and> func flow (plain_args\<lparr>T := 5\<rparr>) 1 1 10 (Fin 0) 4 (framewindow_of (T (plain_args\<lparr>T := 5\<rparr>)))
        \<lparr>n_rows = 1, n_cols = 1, mem = [[Fin 1], [Fin 2], [Fin 4], [Fin 8], [Fin 16], [Fin 32],
           [Fin 64], [Fin 128], [Fin 256], [Fin 512]]\<rparr>
        \<lparr>n_rows = 1, n_cols = 1, mem = [[Fin 512], [Fin 256], [Fin 128], [Fin 64], [Fin 32],
           [Fin 16], [Fin 8], [Fin 4], [Fin 2], [Fin 1]]\<rparr> 0
        \<lparr>cleansequence = zeros 1 1 10, alpha = NaN, mu = NaN, sigma = NaN\<rparr>
      = Some \<lparr>cleansequence = \<lparr>n_rows = 1, n_cols = 1, mem = [[Fin 17], [Fin 0], [Fin 0], [Fin 0],
                 [Fin 0], [Fin 0], [Fin 0], [Fin 0], [Fin 0], [Fin 0]]\<rparr>,
              alpha = NaN, mu = NaN, sigma = NaN\<rparr>
   \<and> func flow (plain_args\<lparr>T := 5\<rparr>) 1 1 10 (Fin 0) 4 (framewindow_of (T (plain_args\<lparr>T := 5\<rparr>)))
        \<lparr>n_rows = 1, n_cols = 1, mem = [[Fin 1], [Fin 2], [Fin 4], [Fin 8], [Fin 16], [Fin 32],
           [Fin 64], [Fin 128], [Fin 256], [Fin 512]]\<rparr>
        \<lparr>n_rows = 1, n_cols = 1, mem = [[Fin 512], [Fin 256], [Fin 128], [Fin 64], [Fin 32],
           [Fin 16], [Fin 8], [Fin 4], [Fin 2], [Fin 1]]\<rparr> 9
        \<lparr>cleansequence = zeros 1 1 10, alpha = NaN, mu = NaN, sigma = NaN\<rparr>
      = Some \<lparr>cleansequence = \<lparr>n_rows = 1, n_cols = 1, mem = [[Fin 0], [Fin 0], [Fin 0], [Fin 0],
                 [Fin 0], [Fin 0], [Fin 0], [Fin 0], [Fin 0], [Fin 544]]\<rparr>,
              alpha = NaN, mu = NaN, sigma = NaN\<rparr>
   \<and> func flow (plain_args\<lparr>T := 5\<rparr>) 1 1 10 (Fin 0) 4 (framewindow_of (T (plain_args\<lparr>T := 5\<rparr>)))
        \<lparr>n_rows = 1, n_cols = 1, mem = [[Fin 1], [Fin 2], [Fin 4], [Fin 8], [Fin 16], [Fin 32],
           [Fin 64], [Fin 128], [Fin 256], [Fin 512]]\<rparr>
        \<lparr>n_rows = 1, n_cols = 1, mem = [[Fin 512], [Fin 256], [Fin 128], [Fin 64], [Fin 32],
           [Fin 16], [Fin 8], [Fin 4], [Fin 2], [Fin 1]]\<rparr> 5
        \<lparr>cleansequence = zeros 1 1 10, alpha = NaN, mu = NaN, sigma = NaN\<rparr>
      = Some \<lparr>cleansequence = \<lparr>n_rows = 1, n_cols = 1, mem = [[Fin 0], [Fin 0], [Fin 0], [Fin 0],
                 [Fin 0], [Fin 64], [Fin 0], [Fin 0], [Fin 0], [Fin 0]]\<rparr>,
              alpha = NaN, mu = NaN, sigma = NaN\<rparr>"
proof -
  let ?a = "plain_args\<lparr>T := 5\<rparr>"
  let ?s = "\<lparr>cleansequence = zeros 1 1 10, alpha = NaN, mu = NaN, sigma = NaN\<rparr>"
  have h: "T ?a = 5" by simp
  have z: "zeros (Suc 0) (Suc 0) 10 = \<lparr>n_rows = Suc 0, n_cols = Suc 0, mem = [[Fin 0], [Fin 0],
      [Fin 0], [Fin 0], [Fin 0], [Fin 0], [Fin 0], [Fin 0], [Fin 0], [Fin 0]]\<rparr>"
    by (simp add: zeros_def eval_nat_numeral)
  note t = frame_window_example [OF h, where c = flow and Nx = 1 and Ny = 1 and l = "Fin 0"
      and nm = 4 and s = ?s and r = 1 and k = 1
      and ?f0.0 = "[Fin 1]" and ?f1.0 = "[Fin 2]" and ?f2.0 = "[Fin 4]" and ?f3.0 = "[Fin 8]"
      and ?f4.0 = "[Fin 16]" and ?f5.0 = "[Fin 32]" and ?f6.0 = "[Fin 64]" and ?f7.0 = "[Fin 128]"
      and ?f8.0 = "[Fin 256]" and ?f9.0 = "[Fin 512]"
      and ?g0.0 = "[Fin 512]" and ?g1.0 = "[Fin 256]" and ?g2.0 = "[Fin 128]" and ?g3.0 = "[Fin 64]"
      and ?g4.0 = "[Fin 32]" and ?g5.0 = "[Fin 16]" and ?g6.0 = "[Fin 8]" and ?g7.0 = "[Fin 4]"
      and ?g8.0 = "[Fin 2]" and ?g9.0 = "[Fin 1]"]
  note t0 = t [THEN conjunct2, THEN conjunct1]
  note t9 = t [THEN conjunct2, THEN conjunct2, THEN conjunct1]
  note t5 = t [THEN conjunct2, THEN conjunct2, THEN conjunct2, THEN conjunct1]
  show ?thesis
    unfolding t0 t9 t5
    by (simp add: process_window_def reconstruction_def normalize_def slice_def set_slice_def
        cube_max_def cube_div_def cube_mul_def n_elem_def n_slices_def Let_def z double_eval)
qed

text \<open>
  Claim C6 as stated (an all-zero window is normalized to an all-zero window) fails: the
  maximum of the window is 0 and \<open>u /= inputmax\<close> divides 0 by 0, which is NaN.
\<close>

theorem normalize_all_zero_counterexample:
  "normalize (zeros 1 1 1) = Some (Fin 0, \<lparr>n_rows = 1, n_cols = 1, mem = [[NaN]]\<rparr>)
   \<and> normalize (zeros 1 1 1) \<noteq> Some (Fin 0, zeros 1 1 1)"
  by (simp add: normalize_def cube_max_def n_elem_def n_slices_def zeros_def cube_div_def)

text \<open>
  Claim C6, amended: normalizing an all-zero window that has at least one element does
  not fault; the maximum is 0 and every element of the normalized window is NaN.
\<close>

theorem normalize_all_zero:
  assumes "wf_cube u" and "n_elem u \<noteq> 0" and "list_all (\<lambda>x. x = Fin 0) (concat (mem u))"
  shows "normalize u = Some (Fin 0, u\<lparr>mem := map (map (\<lambda>x. NaN)) (mem u)\<rparr>)"
proof -
  have z: "\<forall>x \<in> set (concat (mem u)). x = Fin 0"
    using assms(3) by (simp only: list_all_iff)
  have ne: "concat (mem u) \<noteq> []"
    using assms(1,2) by (rule concat_nonempty)
  have m: "cube_max u = Some (Fin 0)"
    unfolding cube_max_def foldl_max_zero [OF z ne] using assms(2) by simp
  have "ddiv x (Fin 0) = NaN" if "f \<in> set (mem u)" "x \<in> set f" for f x
  proof -
    have "x = Fin 0" using z that by auto
    then show ?thesis by simp
  qed
  then have "map (map (\<lambda>x. ddiv x (Fin 0))) (mem u) = map (map (\<lambda>x. NaN)) (mem u)"
    by (intro map_cong refl) blast
  then show ?thesis by (simp add: normalize_def m cube_div_def)
qed

theorem normalize_all_zero_witness:
  "wf_cube (zeros 1 2 1) \<and> n_elem (zeros 1 2 1) \<noteq> 0
   \<and> list_all (\<lambda>x. x = Fin 0) (concat (mem (zeros 1 2 1)))
   \<and> normalize (zeros 1 2 1) = Some (Fin 0, \<lparr>n_rows = 1, n_cols = 2, mem = [[NaN, NaN]]\<rparr>)"
proof -
  have h: "wf_cube (zeros 1 2 1)" "n_elem (zeros 1 2 1) \<noteq> 0"
    "list_all (\<lambda>x. x = Fin 0) (concat (mem (zeros 1 2 1)))"
    by (simp_all add: wf_cube_def zeros_def n_elem_def n_slices_def numeral_2_eq_2)
  have e: "(zeros 1 2 1)\<lparr>mem := map (map (\<lambda>x. NaN)) (mem (zeros 1 2 1))\<rparr>
      = \<lparr>n_rows = 1, n_cols = 2, mem = [[NaN, NaN]]\<rparr>"
    by (simp add: zeros_def numeral_2_eq_2)
  have r: "normalize (zeros 1 2 1) = Some (Fin 0, \<lparr>n_rows = 1, n_cols = 2, mem = [[NaN, NaN]]\<rparr>)"
    using normalize_all_zero [OF h] unfolding e .
  show ?thesis
    by (intro conjI) (rule h(1), rule h(2), rule h(3), rule r)
qed




text \<open>
  Claim C3 as stated (invalid geometry is rejected with a non-zero status before any work)
  fails: the driver has no validation. With a patch size of 3 on frames of 2 by 2 and the
  window length 0, a call on a sequence without frames returns 0; and a call on one frame
  of 1 by 2 pixels with the patch size 3 runs into the median pass and ends there, with no
  status at all.
\<close>

theorem no_geometry_validation_counterexample:
  "int 2 < Bs (plain_args\<lparr>Bs := 3, T := 0\<rparr>) \<and> T (plain_args\<lparr>Bs := 3, T := 0\<rparr>) \<le> 0
   \<and> PGURESVT plain 4 [] (2, 2, 0) (plain_args\<lparr>Bs := 3, T := 0\<rparr>) NaN NaN NaN = Some (0, [])
   \<and> int 1 < Bs (plain_args\<lparr>Bs := 3\<rparr>)
   \<and> PGURESVT plain 4 [Fin 1, Fin 2] (1, 2, 1) (plain_args\<lparr>Bs := 3\<rparr>) NaN NaN NaN = None"
  by (simp add: PGURESVT_def cube_aux_def median_pass_def frame_pass_def run_parallel_def
      zeros_def parallel0_def parallel_def invoked_def range_loop.simps mfunc_def new_array_def
      slice_def n_slices_def conv_to_unsigned_short_def inplace_trans_def set_slice_def
      conv_to_double_def Let_def)

text \<open>
  Claim C3, amended: \<open>PGURESVT\<close> does not validate the geometry. For an input whose patch
  size exceeds the frame width or height, or whose window length is not positive, the call
  returns 0 or does not return; it never returns a non-zero status. On a sequence without
  frames it returns 0 whatever the patch size and the window length are.
\<close>

theorem no_geometry_validation:
  fixes c :: "('p, 'o) collab"
  assumes "int Nx < Bs a \<or> int Ny < Bs a \<or> T a \<le> 0"
  shows "(PGURESVT c total_cores X (Nx, Ny, n) a alpha0 mu0 sigma0 = None
      \<or> (\<exists>Y. PGURESVT c total_cores X (Nx, Ny, n) a alpha0 mu0 sigma0 = Some (0, Y)))
    \<and> PGURESVT c total_cores X (Nx, Ny, 0) a alpha0 mu0 sigma0 = Some (0, [])"
  using PGURESVT_zero_or_fault [of c total_cores X "(Nx, Ny, n)" a alpha0 mu0 sigma0]
    PGURESVT_no_frames [of c total_cores X Nx Ny a alpha0 mu0 sigma0]
  by blast

theorem no_geometry_validation_witness:
  "(int 4 < Bs (plain_args\<lparr>Bs := 7, T := - 3\<rparr>) \<or> int 4 < Bs (plain_args\<lparr>Bs := 7, T := - 3\<rparr>)
      \<or> T (plain_args\<lparr>Bs := 7, T := - 3\<rparr>) \<le> 0)
   \<and> PGURESVT plain 1 [] (4, 4, 0) (plain_args\<lparr>Bs := 7, T := - 3\<rparr>) NaN NaN NaN = Some (0, [])"
proof -
  have h: "int 4 < Bs (plain_args\<lparr>Bs := 7, T := - 3\<rparr>) \<or> int 4 < Bs (plain_args\<lparr>Bs := 7, T := - 3\<rparr>)
      \<or> T (plain_args\<lparr>Bs := 7, T := - 3\<rparr>) \<le> 0"
    by simp
  note t = no_geometry_validation [OF h, of plain 1 "[]" 0 NaN NaN NaN]
  show ?thesis
    by (intro conjI) (rule h, rule t [THEN conjunct2])
qed






text \<open>
  Claim C4 as stated (every frame after the first starts the threshold search from the
  previous frame's converged value) fails: \<open>func\<close> captures \<open>lambda\<close> by value
  (\<open>lambda_=lambda\<close>) and works on a copy, so no frame sees what another one converged to.
  With a negative \<open>userLambda\<close> the optimizer of frame 0 reports 1/2, yet frame 1 starts
  from 0; the output of \<open>probe\<close> shows the starting values 1 (the mean of the normalized
  window, times the maximum 2) and 0.
\<close>

theorem lambda_start_counterexample:
  "fst (Optimize probe \<lparr>n_rows = 1, n_cols = 1, mem = [[Fin 1]]\<rparr> (Fin 0)
          (lambda_start (lambda_init (Fin (- 1))) 0 \<lparr>n_rows = 1, n_cols = 1, mem = [[Fin 1]]\<rparr> 1 1 1)
          (Fin 1) 1000) = Fin (1 / 2)
   \<and> lambda_start (lambda_init (Fin (- 1))) 1 \<lparr>n_rows = 1, n_cols = 1, mem = [[Fin 1]]\<rparr> 1 1 1
       = Fin 0
   \<and> lambda_start (lambda_init (Fin (- 1))) 1 \<lparr>n_rows = 1, n_cols = 1, mem = [[Fin 1]]\<rparr> 1 1 1
       \<noteq> fst (Optimize probe \<lparr>n_rows = 1, n_cols = 1, mem = [[Fin 1]]\<rparr> (Fin 0)
           (lambda_start (lambda_init (Fin (- 1))) 0 \<lparr>n_rows = 1, n_cols = 1, mem = [[Fin 1]]\<rparr>
              1 1 1)
           (Fin 1) 1000)
   \<and> frame_pass probe 1 (plain_args\<lparr>pgureOpt := True, userLambda := Fin (- 1)\<rparr>) 1 1 2
        \<lparr>n_rows = 1, n_cols = 1, mem = [[Fin 2], [Fin 4]]\<rparr>
        \<lparr>n_rows = 1, n_cols = 1, mem = [[Fin 2], [Fin 4]]\<rparr>
        \<lparr>cleansequence = zeros 1 1 2, alpha = NaN, mu = NaN, sigma = NaN\<rparr>
      = Some \<lparr>cleansequence = \<lparr>n_rows = 1, n_cols = 1, mem = [[Fin 2], [Fin 0]]\<rparr>,
              alpha = NaN, mu = NaN, sigma = NaN\<rparr>"
  by (simp add: frame_pass_def run_parallel_def invoked_one_core_two driver_eval double_eval)

text \<open>
  Claim C4, amended: with auto-optimization on, the starting value of the threshold search
  for frame 0 is the sum of the normalized window divided by \<open>Nx * Ny * T\<close> (its mean when
  the window has \<open>T\<close> frames), and for every other frame index it is the value captured
  before the first frame runs, \<open>userLambda\<close> if that is at least 0 and 0 otherwise; it does
  not depend on any other frame. Stated on the loop over the frames, and on \<open>PGURESVT\<close>,
  which runs that loop on what \<open>HotPixelFilter\<close> makes of the input: replacing, for each
  frame, the optimizer by one that ignores the starting value it is given and uses the
  value named here changes nothing, whatever \<open>func\<close> has captured as \<open>lambda_\<close> then.
\<close>

theorem lambda_start_per_frame:
  fixes c :: "('p, 'o) collab"
  shows "frame_pass c total_cores a Nx Ny n noisy filt s =
      run_parallel
        (\<lambda>timeiter. func (c\<lparr>Optimize := \<lambda>opt tl start. Optimize c opt tl
             (if timeiter = 0
              then ddiv (accu (snd (the (normalize (the
                          (window noisy 0 (framewindow_of (T a)) (int n)))))))
                     (Fin (of_int (int Nx * int Ny * T a)))
              else if dle (Fin 0) (userLambda a) then userLambda a else Fin 0)\<rparr>)
           a Nx Ny n l 4 (framewindow_of (T a)) noisy filt timeiter)
        (parallel0 total_cores (of_nat n)) s
    \<and> PGURESVT c total_cores X (Nx, Ny, n) a alpha0 mu0 sigma0 =
        do {
          raw \<leftarrow> cube_aux X Nx Ny n;
          filtered \<leftarrow> median_pass c total_cores Nx Ny n (MedianSize a) (512 * 1024) raw;
          s \<leftarrow> run_parallel
            (\<lambda>timeiter. func (c\<lparr>Optimize := \<lambda>opt tl start. Optimize c opt tl
                 (if timeiter = 0
                  then ddiv (accu (snd (the (normalize (the
                              (window (HotPixelFilter c raw (hotpixelthreshold a)) 0
                                 (framewindow_of (T a)) (int n)))))))
                         (Fin (of_int (int Nx * int Ny * T a)))
                  else if dle (Fin 0) (userLambda a) then userLambda a else Fin 0)\<rparr>)
               a Nx Ny n l 4 (framewindow_of (T a)) (HotPixelFilter c raw (hotpixelthreshold a))
               filtered timeiter)
            (parallel0 total_cores (of_nat n))
            \<lparr>cleansequence = zeros Nx Ny n, alpha = alpha0, mu = mu0, sigma = sigma0\<rparr>;
          Some (0, concat (mem (cleansequence s)))
        }"
proof (intro conjI)
  show "frame_pass c total_cores a Nx Ny n noisy filt s =
      run_parallel
        (\<lambda>timeiter. func (c\<lparr>Optimize := \<lambda>opt tl start. Optimize c opt tl
             (if timeiter = 0
              then ddiv (accu (snd (the (normalize (the
                          (window noisy 0 (framewindow_of (T a)) (int n)))))))
                     (Fin (of_int (int Nx * int Ny * T a)))
              else if dle (Fin 0) (userLambda a) then userLambda a else Fin 0)\<rparr>)
           a Nx Ny n l 4 (framewindow_of (T a)) noisy filt timeiter)
        (parallel0 total_cores (of_nat n)) s"
    by (rule frame_pass_start)
next
  note e = frame_pass_start [of c total_cores a Nx Ny n _ _ _ l]
  show "PGURESVT c total_cores X (Nx, Ny, n) a alpha0 mu0 sigma0 =
        do {
          raw \<leftarrow> cube_aux X Nx Ny n;
          filtered \<leftarrow> median_pass c total_cores Nx Ny n (MedianSize a) (512 * 1024) raw;
          s \<leftarrow> run_parallel
            (\<lambda>timeiter. func (c\<lparr>Optimize := \<lambda>opt tl start. Optimize c opt tl
                 (if timeiter = 0
                  then ddiv (accu (snd (the (normalize (the
                              (window (HotPixelFilter c raw (hotpixelthreshold a)) 0
                                 (framewindow_of (T a)) (int n)))))))
                         (Fin (of_int (int Nx * int Ny * T a)))
                  else if dle (Fin 0) (userLambda a) then userLambda a else Fin 0)\<rparr>)
               a Nx Ny n l 4 (framewindow_of (T a)) (HotPixelFilter c raw (hotpixelthreshold a))
               filtered timeiter)
            (parallel0 total_cores (of_nat n))
            \<lparr>cleansequence = zeros Nx Ny n, alpha = alpha0, mu = mu0, sigma = sigma0\<rparr>;
          Some (0, concat (mem (cleansequence s)))
        }"
    unfolding PGURESVT_def Let_def prod.case e by simp
qed


end
